theory Spec2Isabelle
  imports Complex_Main "HOL-Library.Sublist"
begin

section \<open>JavaScript values and the host runtime\<close>

text \<open>
  The advisory pipeline lives in two files: the API route \<^verbatim>\<open>pages/api/ai-advice.js\<close>
  (prompt construction, candidate cascade, stubs) and the React component
  \<^verbatim>\<open>components/AIAdvisor.jsx\<close> (capability probe, on-device path, remote delegation).
  Both handle untyped JavaScript values, so the embedding starts with a value type.
  Strings are byte sequences; the few non-ASCII characters of the source's literals are
  written as their UTF-8 bytes.
\<close>

datatype js =
    JUndefined
  | JNull
  | JBool bool
  | JNum rat
  | JStr string
  | JArr "js list"
  | JObj "(string \<times> js) list"

text \<open>
  A number is given by its value, which is all the program looks at (zero is falsy); an
  object is the list of its own properties.
\<close>

text \<open>Exceptions and promise rejections are values: \<open>Inl\<close> of this type.\<close>

datatype exn = Error string | TypeError string | RangeError string

text \<open>
  Library functions of the JavaScript host that the repository calls but does not define.
  \<open>String_of\<close> is \<^verbatim>\<open>String(v)\<close> on undefined, null, a boolean or a number, which always gives
  a string. \<open>String_of_object\<close> is \<^verbatim>\<open>String(v)\<close> on an array or an object, which throws a
  TypeError when neither \<^verbatim>\<open>toString\<close> nor \<^verbatim>\<open>valueOf\<close> of the value gives a primitive (an
  own property \<^verbatim>\<open>toString: null\<close> in a JSON body is enough). \<open>JSON_stringify\<close> is
  \<^verbatim>\<open>JSON.stringify(v)\<close> and \<open>JSON_stringify2\<close> is \<^verbatim>\<open>JSON.stringify(v, null, 2)\<close>.
\<close>

record js_runtime =
  String_of :: "js \<Rightarrow> string"
  String_of_object :: "js \<Rightarrow> exn + string"
  JSON_stringify :: "js \<Rightarrow> string"
  JSON_stringify2 :: "js \<Rightarrow> string"
  encodeURIComponent :: "string \<Rightarrow> string"

text \<open>The conversion of a string or a primitive, which cannot throw (used for \<^verbatim>\<open>r.status\<close>).\<close>

definition to_String :: "js_runtime \<Rightarrow> js \<Rightarrow> string" where
  "to_String rt v = (case v of JStr s \<Rightarrow> s | _ \<Rightarrow> String_of rt v)"

text \<open>
  \<^verbatim>\<open>String(v)\<close>, template interpolation \<^verbatim>\<open>`${v}`\<close> and \<^verbatim>\<open>'..' + v\<close> on any value: \<open>Inl\<close> when the
  conversion throws.
\<close>

definition js_String :: "js_runtime \<Rightarrow> js \<Rightarrow> exn + string" where
  "js_String rt v =
     (case v of
        JStr s \<Rightarrow> Inr s
      | JArr xs \<Rightarrow> String_of_object rt v
      | JObj kvs \<Rightarrow> String_of_object rt v
      | _ \<Rightarrow> Inr (String_of rt v))"

fun truthy :: "js \<Rightarrow> bool" where
  "truthy JUndefined = False"
| "truthy JNull = False"
| "truthy (JBool b) = b"
| "truthy (JNum n) = (n \<noteq> 0)"
| "truthy (JStr s) = (s \<noteq> [])"
| "truthy (JArr xs) = True"
| "truthy (JObj kvs) = True"

text \<open>\<^verbatim>\<open>a || b\<close>\<close>

definition js_or :: "js \<Rightarrow> js \<Rightarrow> js" where
  "js_or a b = (if truthy a then a else b)"

definition nullish :: "js \<Rightarrow> bool" where
  "nullish v = (v = JUndefined \<or> v = JNull)"

text \<open>
  \<^verbatim>\<open>v.name\<close> on a value that is neither null nor undefined, for the property names this
  program reads (mode, language, advice, context, candidates, content, parts, text, error,
  provider): only an object can own one of them.
\<close>

fun get_prop :: "js \<Rightarrow> string \<Rightarrow> js" where
  "get_prop (JObj kvs) k = (case map_of kvs k of Some v \<Rightarrow> v | None \<Rightarrow> JUndefined)"
| "get_prop v k = JUndefined"

text \<open>\<^verbatim>\<open>v?.name\<close>\<close>

definition opt_prop :: "js \<Rightarrow> string \<Rightarrow> js" where
  "opt_prop v k = (if nullish v then JUndefined else get_prop v k)"

text \<open>\<^verbatim>\<open>v[0]\<close> on a value that is neither null nor undefined.\<close>

fun idx0 :: "js \<Rightarrow> js" where
  "idx0 (JArr xs) = (case xs of [] \<Rightarrow> JUndefined | x # _ \<Rightarrow> x)"
| "idx0 (JStr s) = (case s of [] \<Rightarrow> JUndefined | c # _ \<Rightarrow> JStr [c])"
| "idx0 (JObj kvs) = (case map_of kvs ''0'' of Some v \<Rightarrow> v | None \<Rightarrow> JUndefined)"
| "idx0 v = JUndefined"

text \<open>\<^verbatim>\<open>v?.[0]\<close>\<close>

definition opt_idx0 :: "js \<Rightarrow> js" where
  "opt_idx0 v = (if nullish v then JUndefined else idx0 v)"

text \<open>\<^verbatim>\<open>Array.prototype.join\<close> on an array of strings.\<close>

fun join :: "string \<Rightarrow> string list \<Rightarrow> string" where
  "join sep [] = []"
| "join sep [x] = x"
| "join sep (x # y # ys) = x @ sep @ join sep (y # ys)"

text \<open>
  \<^verbatim>\<open>Array.from(new Set(xs))\<close>: a Set keeps insertion order and ignores a value it already
  holds, so the first occurrence of each element survives.
\<close>

fun set_add_all :: "'a list \<Rightarrow> 'a list \<Rightarrow> 'a list" where
  "set_add_all seen [] = seen"
| "set_add_all seen (x # xs) = set_add_all (if x \<in> set seen then seen else seen @ [x]) xs"

definition array_from_set :: "'a list \<Rightarrow> 'a list" where
  "array_from_set xs = set_add_all [] xs"

section \<open>The API route: \<^verbatim>\<open>pages/api/ai-advice.js\<close>\<close>

text \<open>
  What \<^verbatim>\<open>fetch\<close> resolves to, as far as the code reads it: \<^verbatim>\<open>r.ok\<close>, \<^verbatim>\<open>r.status\<close>, and the
  two body readers \<^verbatim>\<open>r.json()\<close> and \<^verbatim>\<open>r.text()\<close>, each of which may reject.
\<close>

record http_response =
  r_ok :: bool
  r_status :: nat
  r_json :: "exn + js"
  r_text :: "exn + string"

text \<open>\<^verbatim>\<open>fetch(url, {method: 'POST', ..., body})\<close>: rejects or resolves to a response.\<close>

type_synonym fetch = "string \<Rightarrow> string \<Rightarrow> exn + http_response"

record request =
  req_method :: string
  req_body :: js

text \<open>\<^verbatim>\<open>process.env\<close>: a variable is unset (\<open>None\<close>) or a string.\<close>

record process_env =
  GEMINI_API_KEY :: "string option"
  GEMINI_MODEL :: "string option"

text \<open>\<^verbatim>\<open>res.status(c).json(payload)\<close>\<close>

record reply =
  status_code :: nat
  payload :: js

text \<open>Destructuring with a default: the default applies when the property is undefined.\<close>

definition field_or :: "js \<Rightarrow> string \<Rightarrow> js \<Rightarrow> js" where
  "field_or b k d = (let v = get_prop b k in if v = JUndefined then d else v)"

definition ldquo :: string where
  "ldquo = [CHR 0xE2, CHR 0x80, CHR 0x9C]"

definition rdquo :: string where
  "rdquo = [CHR 0xE2, CHR 0x80, CHR 0x9D]"

definition emdash :: string where
  "emdash = [CHR 0xE2, CHR 0x80, CHR 0x94]"

text \<open>
  Lines 17-24 of the route: the prompt for the three modes. Interpolating \<^verbatim>\<open>language\<close> or
  \<^verbatim>\<open>advice\<close> converts the value to a string, in source order, and throws when that does.
\<close>

definition build_prompt :: "js_runtime \<Rightarrow> js \<Rightarrow> js \<Rightarrow> js \<Rightarrow> js \<Rightarrow> exn + string" where
  "build_prompt rt mode language advice context =
     (if mode = JStr ''translate'' then
        (case js_String rt language of
           Inl e \<Rightarrow> Inl e
         | Inr l \<Rightarrow>
             (case js_String rt advice of
                Inl e \<Rightarrow> Inl e
              | Inr a \<Rightarrow>
                  Inr (''Translate the following advisory to '' @ l @
                       '' using clear, friendly travel English localized to the target language.\<newline>\<newline>'' @
                       a)))
      else if mode = JStr ''rewrite'' then
        (case js_String rt advice of
           Inl e \<Rightarrow> Inl e
         | Inr a \<Rightarrow>
             Inr (''Rewrite the following advisory to be more concise while preserving all key recommendations. Limit to 120 words.\<newline>\<newline>'' @
                  a))
      else
        Inr (''You are a concise travel assistant integrated in a flight delay dashboard. Given the flight context, weather and predicted delays, generate a short actionable advisory for the traveler. Prefer bullet points. Avoid hedging. Never invent data. Keep to ~120-180 words. Include '' @
             ldquo @ ''What to do next'' @ rdquo @ '' with 2-3 steps.\<newline>\<newline>JSON Context:\<newline>'' @
             JSON_stringify2 rt context))"

definition stub_no_key :: string where
  "stub_no_key = join ''\<newline>''
     [''DEMO ADVISORY (no GEMINI_API_KEY set):'',
      ''- Allow extra time at the airport; weather may introduce minor gate/ground delays.'',
      ''- Pack essentials in carry-on and consider earlier check-in.'',
      ''What to do next:'',
      ''1) Monitor your airline app for gate changes.'',
      ''2) If connecting, choose longer layover options if possible.'',
      ''3) Have a backup ground transport plan at destination.'']"

definition stub_unavailable :: string where
  "stub_unavailable = join ''\<newline>''
     [''DEMO ADVISORY (Gemini endpoints unavailable):'',
      ''- Expect minor operational variability; build buffer into your plans.'',
      ''- Keep essentials handy and watch for gate updates.'',
      ''What to do next:'',
      ''1) Enable Generative Language API and verify your API key permissions.'',
      ''2) Try model=`GEMINI_MODEL=gemini-1.5-flash` with API version v1beta.'',
      ''3) Re-run '' @ emdash @ '' the app will use on-device AI when available.'']"

definition stub_on_error :: string where
  "stub_on_error = join ''\<newline>''
     [''DEMO ADVISORY (fallback on error):'',
      ''- Some disruptions possible; arrive early and monitor your airline app.'',
      ''What to do next:'',
      ''1) Consider flexible rebooking options.'',
      ''2) Prepare backup ground transport at destination.'']"

definition base :: string where
  "base = ''https://generativelanguage.googleapis.com''"

definition versions :: "string list" where
  "versions = [''v1beta'', ''v1'']"

text \<open>\<^verbatim>\<open>process.env.GEMINI_MODEL || 'gemini-1.5-flash'\<close>: unset and empty both give the default.\<close>

definition preferred :: "process_env \<Rightarrow> string" where
  "preferred env =
     (case GEMINI_MODEL env of
        None \<Rightarrow> ''gemini-1.5-flash''
      | Some m \<Rightarrow> if m = [] then ''gemini-1.5-flash'' else m)"

definition models :: "process_env \<Rightarrow> string list" where
  "models env = array_from_set
     [preferred env,
      preferred env @ ''-latest'',
      preferred env @ ''-002'',
      ''gemini-1.5-flash-8b'',
      ''gemini-1.5-flash-8b-latest'',
      ''gemini-1.5-flash'',
      ''gemini-1.5-flash-latest'',
      ''gemini-1.5-pro'']"

definition url_of :: "js_runtime \<Rightarrow> string \<Rightarrow> string \<Rightarrow> string \<Rightarrow> string" where
  "url_of rt apiKey ver model =
     base @ ''/'' @ ver @ ''/models/'' @ model @ '':generateContent?key='' @
     encodeURIComponent rt apiKey"

definition request_body :: "js_runtime \<Rightarrow> string \<Rightarrow> string" where
  "request_body rt prompt = JSON_stringify rt
     (JObj [(''contents'',
        JArr [JObj [(''role'', JStr ''user''),
                    (''parts'', JArr [JObj [(''text'', JStr prompt)]])]])])"

text \<open>\<^verbatim>\<open>data?.candidates?.[0]?.content?.parts?.[0]?.text\<close>\<close>

definition extract_text :: "js \<Rightarrow> js" where
  "extract_text data =
     opt_prop (opt_idx0 (opt_prop (opt_prop (opt_idx0 (opt_prop data ''candidates'')) ''content'') ''parts'')) ''text''"

text \<open>The replies of the route, one definition for each \<^verbatim>\<open>res.status(..).json(..)\<close>.\<close>

definition method_not_allowed :: reply where
  "method_not_allowed =
     \<lparr>status_code = 405, payload = JObj [(''error'', JStr ''Method not allowed'')]\<rparr>"

definition stub_reply :: reply where
  "stub_reply =
     \<lparr>status_code = 200,
      payload = JObj [(''text'', JStr stub_no_key), (''provider'', JStr ''stub'')]\<rparr>"

definition success_reply :: "string \<Rightarrow> string \<Rightarrow> js \<Rightarrow> reply" where
  "success_reply ver model data =
     \<lparr>status_code = 200,
      payload = JObj [(''text'', js_or (extract_text data) (JStr [])),
                      (''provider'', JStr (''gemini:'' @ ver @ '':'' @ model))]\<rparr>"

definition fallback_reply :: "string \<Rightarrow> reply" where
  "fallback_reply lastErr =
     \<lparr>status_code = 200,
      payload = JObj [(''text'', JStr stub_unavailable),
                      (''provider'', JStr ''stub-fallback''),
                      (''errorInfo'', JStr lastErr)]\<rparr>"

definition error_reply :: reply where
  "error_reply =
     \<lparr>status_code = 200,
      payload = JObj [(''text'', JStr stub_on_error), (''provider'', JStr ''stub-error'')]\<rparr>"

text \<open>
  The loop variables that outlive an iteration: \<^verbatim>\<open>lastErrText\<close>, and the URLs fetched so
  far (the calls issued to the remote provider, in order).
\<close>

record cascade_state =
  lastErrText :: string
  calls :: "string list"

text \<open>
  How a piece of the try block ends: it throws (\<open>Inl\<close>), it returns a reply from the
  handler (\<open>Inr (Some r)\<close>), or it completes and control goes on (\<open>Inr None\<close>).
\<close>

type_synonym ending = "exn + reply option"

text \<open>The body of the inner loop (lines 58-85), for one version and one model.\<close>

definition attempt ::
  "js_runtime \<Rightarrow> fetch \<Rightarrow> string \<Rightarrow> string \<Rightarrow> string \<Rightarrow> string \<Rightarrow> cascade_state \<Rightarrow> ending \<times> cascade_state" where
  "attempt rt fetch apiKey prompt ver model st =
     (let url = url_of rt apiKey ver model;
          st1 = st\<lparr>calls := calls st @ [url]\<rparr>
      in case fetch url (request_body rt prompt) of
           Inl e \<Rightarrow> (Inl e, st1)
         | Inr r \<Rightarrow>
             if r_ok r then
               (case r_json r of
                  Inl e \<Rightarrow> (Inl e, st1)
                | Inr data \<Rightarrow>
                    (Inr (Some (success_reply ver model data)), st1))
             else
               (case r_text r of
                  Inl e \<Rightarrow> (Inl e, st1)
                | Inr t \<Rightarrow>
                    (let st2 = st1\<lparr>lastErrText := ''('' @ ver @ ''/'' @ model @ '') '' @ t\<rparr>
                     in if r_status r \<ge> 500 then
                          (Inl (Error (''Gemini API server error '' @
                                       to_String rt (JNum (of_nat (r_status r))) @ '': '' @ t)),
                           st2)
                        else (Inr None, st2))))"

text \<open>\<^verbatim>\<open>for (const model of models)\<close>\<close>

fun try_models ::
  "js_runtime \<Rightarrow> fetch \<Rightarrow> string \<Rightarrow> string \<Rightarrow> string \<Rightarrow> string list \<Rightarrow> cascade_state \<Rightarrow> ending \<times> cascade_state" where
  "try_models rt fetch apiKey prompt ver [] st = (Inr None, st)"
| "try_models rt fetch apiKey prompt ver (model # ms) st =
     (case attempt rt fetch apiKey prompt ver model st of
        (Inr None, st') \<Rightarrow> try_models rt fetch apiKey prompt ver ms st'
      | (e, st') \<Rightarrow> (e, st'))"

text \<open>\<^verbatim>\<open>for (const ver of versions)\<close>\<close>

fun try_versions ::
  "js_runtime \<Rightarrow> fetch \<Rightarrow> string \<Rightarrow> string \<Rightarrow> string list \<Rightarrow> string list \<Rightarrow> cascade_state \<Rightarrow> ending \<times> cascade_state" where
  "try_versions rt fetch apiKey prompt [] ms st = (Inr None, st)"
| "try_versions rt fetch apiKey prompt (ver # vs) ms st =
     (case try_models rt fetch apiKey prompt ver ms st of
        (Inr None, st') \<Rightarrow> try_versions rt fetch apiKey prompt vs ms st'
      | (e, st') \<Rightarrow> (e, st'))"

text \<open>
  Line 13 and lines 17-24: the four fields of \<^verbatim>\<open>req.body || {}\<close> with their defaults, and the
  prompt built from them.
\<close>

definition request_prompt :: "js_runtime \<Rightarrow> request \<Rightarrow> exn + string" where
  "request_prompt rt req =
     (let b = js_or (req_body req) (JObj []);
          mode = field_or b ''mode'' (JStr ''advice'');
          language = field_or b ''language'' (JStr ''en'');
          advice = field_or b ''advice'' (JStr []);
          context = field_or b ''context'' (JObj [])
      in build_prompt rt mode language advice context)"

text \<open>
  The try block (lines 12-98): the prompt is built first, then the key is checked, then
  the loops run. The result is how the block ends (a thrown exception or the reply it
  returns) and the provider calls it issued.
\<close>

definition handler_try ::
  "js_runtime \<Rightarrow> process_env \<Rightarrow> fetch \<Rightarrow> request \<Rightarrow> (exn + reply) \<times> string list" where
  "handler_try rt env fetch req =
     (case request_prompt rt req of
        Inl e \<Rightarrow> (Inl e, [])
      | Inr prompt \<Rightarrow>
          (case GEMINI_API_KEY env of
             None \<Rightarrow> (Inr stub_reply, [])
           | Some apiKey \<Rightarrow>
               if apiKey = [] then (Inr stub_reply, [])
               else
                 (case try_versions rt fetch apiKey prompt versions (models env)
                         \<lparr>lastErrText = [], calls = []\<rparr> of
                    (Inl e, st) \<Rightarrow> (Inl e, calls st)
                  | (Inr (Some r), st) \<Rightarrow> (Inr r, calls st)
                  | (Inr None, st) \<Rightarrow> (Inr (fallback_reply (lastErrText st)), calls st))))"

text \<open>The route handler: the method check, the try block, and the catch block.\<close>

definition handler ::
  "js_runtime \<Rightarrow> process_env \<Rightarrow> fetch \<Rightarrow> request \<Rightarrow> reply \<times> string list" where
  "handler rt env fetch req =
     (if req_method req \<noteq> ''POST'' then
        (method_not_allowed, [])
      else
        (case handler_try rt env fetch req of
           (Inr r, cs) \<Rightarrow> (r, cs)
         | (Inl err, cs) \<Rightarrow> (error_reply, cs)))"

subsection \<open>The candidate list\<close>

text \<open>
  The nested loops visit the pairs (version, model) in this order: versions outer, models
  inner. The list is never built by the source; it is what the loops traverse.
\<close>

definition candidates :: "process_env \<Rightarrow> (string \<times> string) list" where
  "candidates env = List.product versions (models env)"

definition candidate_url :: "js_runtime \<Rightarrow> string \<Rightarrow> string \<times> string \<Rightarrow> string" where
  "candidate_url rt apiKey c = url_of rt apiKey (fst c) (snd c)"

text \<open>The two loops as one traversal of a list of pairs.\<close>

fun cascade ::
  "js_runtime \<Rightarrow> fetch \<Rightarrow> string \<Rightarrow> string \<Rightarrow> (string \<times> string) list \<Rightarrow> cascade_state \<Rightarrow> ending \<times> cascade_state" where
  "cascade rt fetch apiKey prompt [] st = (Inr None, st)"
| "cascade rt fetch apiKey prompt (c # cs) st =
     (case attempt rt fetch apiKey prompt (fst c) (snd c) st of
        (Inr None, st') \<Rightarrow> cascade rt fetch apiKey prompt cs st'
      | (e, st') \<Rightarrow> (e, st'))"

text \<open>
  A candidate whose call fails with a status that is not server-class: the fetch resolves,
  \<^verbatim>\<open>r.ok\<close> is false, the status is below 500 and the error body can be read.
\<close>

definition client_failure :: "js_runtime \<Rightarrow> fetch \<Rightarrow> string \<Rightarrow> string \<Rightarrow> string \<times> string \<Rightarrow> bool" where
  "client_failure rt fetch apiKey prompt c =
     (case fetch (candidate_url rt apiKey c) (request_body rt prompt) of
        Inl e \<Rightarrow> False
      | Inr r \<Rightarrow> \<not> r_ok r \<and> r_status r < 500 \<and> (case r_text r of Inl e \<Rightarrow> False | Inr t \<Rightarrow> True))"

text \<open>The text recorded in \<^verbatim>\<open>lastErrText\<close> for a failed candidate with error body \<open>t\<close>.\<close>

definition recorded_error :: "string \<times> string \<Rightarrow> string \<Rightarrow> string" where
  "recorded_error c t = ''('' @ fst c @ ''/'' @ snd c @ '') '' @ t"

definition error_body :: "js_runtime \<Rightarrow> fetch \<Rightarrow> string \<Rightarrow> string \<Rightarrow> string \<times> string \<Rightarrow> string" where
  "error_body rt fetch apiKey prompt c =
     (case fetch (candidate_url rt apiKey c) (request_body rt prompt) of
        Inr r \<Rightarrow> (case r_text r of Inr t \<Rightarrow> t | Inl e \<Rightarrow> [])
      | Inl e \<Rightarrow> [])"

subsection \<open>A sample host, for the worked examples\<close>

definition sample_rt :: js_runtime where
  "sample_rt =
     \<lparr>String_of = (\<lambda>v. case v of JUndefined \<Rightarrow> ''undefined'' | JBool True \<Rightarrow> ''true''
                       | JBool False \<Rightarrow> ''false'' | _ \<Rightarrow> ''null''),
      String_of_object =
        (\<lambda>v. if get_prop v ''toString'' = JNull
             then Inl (TypeError ''Cannot convert object to primitive value'')
             else Inr ''[object Object]''),
      JSON_stringify = (\<lambda>v. ''{}''),
      JSON_stringify2 = (\<lambda>v. ''{}''),
      encodeURIComponent = (\<lambda>s. s)\<rparr>"

definition sample_env :: process_env where
  "sample_env = \<lparr>GEMINI_API_KEY = Some ''key'', GEMINI_MODEL = Some ''gemini-2.0-flash''\<rparr>"

definition sample_request :: request where
  "sample_request =
     \<lparr>req_method = ''POST'',
      req_body = JObj [(''mode'', JStr ''advice''), (''language'', JStr ''en''),
                       (''context'', JObj [(''flight'', JObj [(''origin'', JStr ''LAX''),
                                                              (''destination'', JStr ''JFK'')])])]\<rparr>"

text \<open>A translate request whose \<^verbatim>\<open>language\<close> is an object that cannot be converted to a string.\<close>

definition odd_request :: request where
  "odd_request =
     \<lparr>req_method = ''POST'',
      req_body = JObj [(''mode'', JStr ''translate''),
                       (''language'', JObj [(''toString'', JNull)]),
                       (''advice'', JStr ''Pack an umbrella.'')]\<rparr>"

text \<open>A provider that answers every call with the same response.\<close>

definition always :: "http_response \<Rightarrow> fetch" where
  "always r = (\<lambda>url body. Inr r)"

definition not_found :: http_response where
  "not_found = \<lparr>r_ok = False, r_status = 404, r_json = Inr JNull, r_text = Inr ''model not found''\<rparr>"


definition unavailable :: http_response where
  "unavailable = \<lparr>r_ok = False, r_status = 503, r_json = Inr JNull, r_text = Inr ''overloaded''\<rparr>"

definition ok_without_text :: http_response where
  "ok_without_text = \<lparr>r_ok = True, r_status = 200, r_json = Inr (JObj [(''candidates'', JArr [])]), r_text = Inr ''{}''\<rparr>"

definition ok_with_text :: http_response where
  "ok_with_text =
     \<lparr>r_ok = True, r_status = 200,
      r_json = Inr (JObj [(''candidates'',
                 JArr [JObj [(''content'', JObj [(''parts'', JArr [JObj [(''text'', JStr ''Pack an umbrella.'')]])])]])]),
      r_text = Inr ''{}''\<rparr>"

text \<open>A provider that answers 404 on the first URL of the sample cascade and \<open>r\<close> elsewhere.\<close>

definition first_404_then :: "http_response \<Rightarrow> fetch" where
  "first_404_then r =
     (\<lambda>url body. if url = url_of sample_rt ''key'' ''v1beta'' ''gemini-2.0-flash''
                  then Inr not_found else Inr r)"

section \<open>The component: \<^verbatim>\<open>components/AIAdvisor.jsx\<close>\<close>

subsection \<open>The browser as the component sees it\<close>

text \<open>The options object passed to \<^verbatim>\<open>window.ai.createTextSession\<close>.\<close>

record session_options =
  systemPrompt :: string
  temperature :: rat
  topK :: nat

text \<open>A text session is its \<^verbatim>\<open>prompt(text)\<close> method: it rejects or resolves to a value.\<close>

type_synonym text_session = "string \<Rightarrow> exn + js"

text \<open>
  \<^verbatim>\<open>window.ai\<close>. \<open>canCreateTextSession\<close> is \<open>None\<close> when the property is absent, and
  \<open>createTextSession\<close> is \<open>None\<close> when it is not a function. The answer of the readiness
  query can change while the page lives (a model download completes), so it takes the
  number of readiness queries made before it.
\<close>

record ai_facility =
  canCreateTextSession :: "(nat \<Rightarrow> exn + js) option"
  createTextSession :: "(session_options \<Rightarrow> exn + text_session) option"

text \<open>
  \<open>has_window\<close> is \<^verbatim>\<open>typeof window !== 'undefined'\<close>; \<open>window_ai\<close> is \<open>None\<close> when \<^verbatim>\<open>window.ai\<close>
  is falsy; \<open>fetch_advice\<close> is \<^verbatim>\<open>fetch('/api/ai-advice', {method: 'POST', ..., body})\<close> as a
  function of the body.
\<close>

record browser =
  has_window :: bool
  window_ai :: "ai_facility option"
  fetch_advice :: "string \<Rightarrow> exn + http_response"

text \<open>
  The \<^verbatim>\<open>date\<close> prop is a \<^verbatim>\<open>Date\<close> object, given by what its \<^verbatim>\<open>toISOString()\<close> does (it throws
  a RangeError on an invalid date), or some other value.
\<close>

datatype date_prop = DateObject "exn + string" | NotADate js

record props =
  origin :: js
  destination :: js
  date :: date_prop
  departureTime :: js
  arrivalTime :: js
  originWeather :: js
  destWeather :: js
  prediction :: js

text \<open>The \<^verbatim>\<open>useState\<close> cells of the component.\<close>

record ui_state =
  advice :: string
  loading :: bool
  language :: string
  provider :: js
  aiStatus :: js

text \<open>The calls that leave the component, in the order they are made.\<close>

datatype event =
    ReadinessQuery
  | CreateSession session_options
  | Prompt string
  | RemoteCall string

record world =
  ui :: ui_state
  trace :: "event list"

definition readiness_queries :: "event list \<Rightarrow> nat" where
  "readiness_queries es = length (filter (\<lambda>e. e = ReadinessQuery) es)"

definition remote_calls :: "event list \<Rightarrow> nat" where
  "remote_calls es = length (filter (\<lambda>e. case e of RemoteCall b \<Rightarrow> True | _ \<Rightarrow> False) es)"

definition session_creations :: "event list \<Rightarrow> nat" where
  "session_creations es = length (filter (\<lambda>e. case e of CreateSession opts \<Rightarrow> True | _ \<Rightarrow> False) es)"

definition prompt_calls :: "event list \<Rightarrow> nat" where
  "prompt_calls es = length (filter (\<lambda>e. case e of Prompt t \<Rightarrow> True | _ \<Rightarrow> False) es)"

definition emit :: "event \<Rightarrow> world \<Rightarrow> world" where
  "emit e w = w\<lparr>trace := trace w @ [e]\<rparr>"

subsection \<open>The component's functions\<close>

definition supportsPromptAPI :: "browser \<Rightarrow> bool" where
  "supportsPromptAPI b =
     (has_window b \<and>
      (case window_ai b of None \<Rightarrow> False | Some ai \<Rightarrow> createTextSession ai \<noteq> None))"

text \<open>
  \<^verbatim>\<open>checkAI\<close>, the effect run on mount (lines 26-41). Calling a missing
  \<^verbatim>\<open>canCreateTextSession\<close> throws inside the try block, so it ends in the catch branch.
\<close>

definition checkAI :: "browser \<Rightarrow> world \<Rightarrow> world" where
  "checkAI b w =
     (if \<not> has_window b then w
      else case window_ai b of
             None \<Rightarrow> w\<lparr>ui := (ui w)\<lparr>aiStatus := JStr ''unavailable''\<rparr>\<rparr>
           | Some ai \<Rightarrow>
               (case canCreateTextSession ai of
                  None \<Rightarrow> w\<lparr>ui := (ui w)\<lparr>aiStatus := JStr ''error''\<rparr>\<rparr>
                | Some query \<Rightarrow>
                    (let w1 = emit ReadinessQuery w
                     in case query (readiness_queries (trace w)) of
                          Inl e \<Rightarrow> w1\<lparr>ui := (ui w1)\<lparr>aiStatus := JStr ''error''\<rparr>\<rparr>
                        | Inr status \<Rightarrow> w1\<lparr>ui := (ui w1)\<lparr>aiStatus := status\<rparr>\<rparr>)))"

definition the_systemPrompt :: string where
  "the_systemPrompt = join '' ''
     [''You are a concise travel assistant integrated in a flight delay dashboard.'',
      ''Given the flight context, weather and predicted delays, generate a short actionable advisory for the traveler.'',
      ''Prefer bullet points. Avoid hedging. Never invent data.'',
      ''Keep to ~120-180 words. Include '' @ ldquo @ ''What to do next'' @ rdquo @ '' with 2-3 steps.'']"

text \<open>\<^verbatim>\<open>buildContext\<close> (lines 52-60); \<^verbatim>\<open>split('T')[0]\<close> is the part before the first T.\<close>

definition buildContext :: "js_runtime \<Rightarrow> props \<Rightarrow> exn + js" where
  "buildContext rt p =
     (case (case date p of
              DateObject toISO \<Rightarrow>
                (case toISO of Inl e \<Rightarrow> Inl e | Inr s \<Rightarrow> Inr (takeWhile (\<lambda>c. c \<noteq> CHR ''T'') s))
            | NotADate v \<Rightarrow> js_String rt v) of
        Inl e \<Rightarrow> Inl e
      | Inr d \<Rightarrow>
          Inr (JObj
            [(''flight'', JObj [(''origin'', origin p), (''destination'', destination p),
                               (''date'', JStr d), (''departureTime'', departureTime p),
                               (''arrivalTime'', arrivalTime p)]),
             (''weather'', JObj [(''origin'', originWeather p), (''destination'', destWeather p)]),
             (''prediction'', js_or (prediction p) JNull)]))"

text \<open>The prompt of the on-device path (lines 75-82).\<close>

definition local_prompt :: "js_runtime \<Rightarrow> string \<Rightarrow> string \<Rightarrow> string \<Rightarrow> js \<Rightarrow> string" where
  "local_prompt rt mode lang adv ctx =
     (if mode = ''translate'' then
        ''Translate the following advisory to '' @ lang @
        '' using clear, friendly travel English localized to the target language:\<newline>\<newline>'' @ adv
      else if mode = ''rewrite'' then
        ''Rewrite the following advisory to be more concise while preserving all key recommendations. Limit to 120 words.\<newline>\<newline>'' @
        adv
      else
        ''Create a traveler advisory for this flight context. Output plain text.\<newline>\<newline>JSON Context:\<newline>'' @
        JSON_stringify2 rt ctx)"

text \<open>The options of line 68-72: the fixed system prompt and a temperature by mode.\<close>

definition session_opts :: "string \<Rightarrow> session_options" where
  "session_opts mode =
     \<lparr>systemPrompt = the_systemPrompt,
      temperature = (if mode = ''translate'' then 2 / 10 else 4 / 10),
      topK = 40\<rparr>"

text \<open>The request body of line 97.\<close>

definition remote_body :: "js_runtime \<Rightarrow> string \<Rightarrow> world \<Rightarrow> js \<Rightarrow> string" where
  "remote_body rt mode w ctx =
     JSON_stringify rt
       (JObj [(''mode'', JStr mode), (''language'', JStr (language (ui w))),
              (''advice'', JStr (advice (ui w))), (''context'', ctx)])"

definition set_result :: "string \<Rightarrow> js \<Rightarrow> world \<Rightarrow> world" where
  "set_result text tag w = w\<lparr>ui := (ui w)\<lparr>advice := text, provider := tag\<rparr>\<rparr>"

text \<open>
  Lines 68-87: the on-device path, entered once the readiness answer is \<^verbatim>\<open>readily\<close> or
  \<^verbatim>\<open>after-download\<close>. \<open>Inl\<close> is an exception on its way to the catch block, \<open>Inr ()\<close> is
  the \<^verbatim>\<open>return\<close>. \<^verbatim>\<open>String(output || '')\<close> is evaluated before either setter is called.
\<close>

definition on_device :: "js_runtime \<Rightarrow> ai_facility \<Rightarrow> props \<Rightarrow> string \<Rightarrow> world \<Rightarrow> (exn + unit) \<times> world" where
  "on_device rt ai p mode w =
     (case createTextSession ai of
        None \<Rightarrow> (Inl (TypeError ''window.ai.createTextSession is not a function''), w)
      | Some create \<Rightarrow>
          (let opts = session_opts mode;
               w1 = emit (CreateSession opts) w
           in case create opts of
                Inl e \<Rightarrow> (Inl e, w1)
              | Inr session \<Rightarrow>
                  (case buildContext rt p of
                     Inl e \<Rightarrow> (Inl e, w1)
                   | Inr ctx \<Rightarrow>
                       (let prompt = local_prompt rt mode (language (ui w)) (advice (ui w)) ctx;
                            w2 = emit (Prompt prompt) w1
                        in case session prompt of
                             Inl e \<Rightarrow> (Inl e, w2)
                           | Inr output \<Rightarrow>
                               (case js_String rt (js_or output (JStr [])) of
                                  Inl e \<Rightarrow> (Inl e, w2)
                                | Inr text \<Rightarrow>
                                    (Inr (), set_result text (JStr ''on-device (Gemini Nano)'') w2))))))"

text \<open>Lines 91-104: the delegation to the server route.\<close>

definition server_fallback :: "js_runtime \<Rightarrow> browser \<Rightarrow> props \<Rightarrow> string \<Rightarrow> world \<Rightarrow> (exn + unit) \<times> world" where
  "server_fallback rt b p mode w =
     (case buildContext rt p of
        Inl e \<Rightarrow> (Inl e, w)
      | Inr ctx \<Rightarrow>
          (let body = remote_body rt mode w ctx;
               w1 = emit (RemoteCall body) w
           in case fetch_advice b body of
                Inl e \<Rightarrow> (Inl e, w1)
              | Inr r \<Rightarrow>
                  (case r_json r of
                     Inl e \<Rightarrow> (Inl e, w1)
                   | Inr j \<Rightarrow>
                       if \<not> r_ok r then
                         (case js_String rt (js_or (opt_prop j ''error'') (JStr ''AI advice failed'')) of
                            Inl e \<Rightarrow> (Inl e, w1)
                          | Inr msg \<Rightarrow> (Inl (Error msg), w1))
                       else if nullish j then
                         (Inl (TypeError ''Cannot read properties of null''), w1)
                       else
                         (case js_String rt (js_or (get_prop j ''text'') (JStr [])) of
                            Inl e \<Rightarrow> (Inl e, w1)
                          | Inr text \<Rightarrow>
                              (Inr (),
                               set_result text (js_or (get_prop j ''provider'') (JStr ''server'')) w1)))))"

text \<open>
  The try block of \<^verbatim>\<open>generate\<close> (lines 65-104). \<^verbatim>\<open>window.ai?.canCreateTextSession?.()\<close> gives
  undefined, without a call, when the method is missing.
\<close>

definition generate_try :: "js_runtime \<Rightarrow> browser \<Rightarrow> props \<Rightarrow> string \<Rightarrow> world \<Rightarrow> (exn + unit) \<times> world" where
  "generate_try rt b p mode w =
     (if supportsPromptAPI b then
        (case window_ai b of
           None \<Rightarrow> server_fallback rt b p mode w
         | Some ai \<Rightarrow>
             (case (case canCreateTextSession ai of
                      None \<Rightarrow> (Inr JUndefined, w)
                    | Some query \<Rightarrow> (query (readiness_queries (trace w)), emit ReadinessQuery w)) of
                (Inl e, w1) \<Rightarrow> (Inl e, w1)
              | (Inr can, w1) \<Rightarrow>
                  if can = JStr ''readily'' \<or> can = JStr ''after-download''
                  then on_device rt ai p mode w1
                  else server_fallback rt b p mode w1))
      else server_fallback rt b p mode w)"

definition unable_text :: string where
  "unable_text = ''Unable to generate advisory (both Built-in AI and fallback failed).''"

text \<open>\<^verbatim>\<open>generate(mode)\<close>: \<^verbatim>\<open>setLoading(true)\<close>, the try block, the catch and the finally.\<close>

definition generate :: "js_runtime \<Rightarrow> browser \<Rightarrow> props \<Rightarrow> string \<Rightarrow> world \<Rightarrow> world" where
  "generate rt b p mode w =
     (let w0 = w\<lparr>ui := (ui w)\<lparr>loading := True\<rparr>\<rparr>;
          w2 = (case generate_try rt b p mode w0 of
                  (Inr u, w1) \<Rightarrow> w1
                | (Inl err, w1) \<Rightarrow> set_result unable_text (JStr ''error'') w1)
      in w2\<lparr>ui := (ui w2)\<lparr>loading := False\<rparr>\<rparr>)"

subsection \<open>A page session\<close>

text \<open>
  The state a mount starts from (the \<^verbatim>\<open>useState\<close> initial values), the mount itself (the
  effect with an empty dependency list runs \<^verbatim>\<open>checkAI\<close> once), and the user's actions after
  it: a click on one of the three buttons, or a choice in the language menu.
\<close>

definition initial_world :: world where
  "initial_world =
     \<lparr>ui = \<lparr>advice = [], loading = False, language = ''en'', provider = JStr [], aiStatus = JNull\<rparr>,
      trace = []\<rparr>"

definition mount :: "browser \<Rightarrow> world" where
  "mount b = checkAI b initial_world"

datatype action = Click string | SetLanguage string

fun act :: "js_runtime \<Rightarrow> browser \<Rightarrow> props \<Rightarrow> action \<Rightarrow> world \<Rightarrow> world" where
  "act rt b p (Click mode) w = generate rt b p mode w"
| "act rt b p (SetLanguage l) w = w\<lparr>ui := (ui w)\<lparr>language := l\<rparr>\<rparr>"

fun run :: "js_runtime \<Rightarrow> browser \<Rightarrow> props \<Rightarrow> action list \<Rightarrow> world \<Rightarrow> world" where
  "run rt b p [] w = w"
| "run rt b p (a # as) w = run rt b p as (act rt b p a w)"

definition clicks :: "action list \<Rightarrow> nat" where
  "clicks as = length (filter (\<lambda>a. case a of Click m \<Rightarrow> True | _ \<Rightarrow> False) as)"

subsection \<open>A sample browser, for the worked examples\<close>

definition sample_props :: props where
  "sample_props =
     \<lparr>origin = JStr ''LAX'', destination = JStr ''JFK'',
      date = DateObject (Inr ''2025-01-15T10:00:00.000Z''),
      departureTime = JStr ''10:00'', arrivalTime = JStr ''18:30'',
      originWeather = JNull, destWeather = JNull, prediction = JUndefined\<rparr>"

text \<open>A facility that is ready and whose session answers every prompt with \<open>out\<close>.\<close>

definition ready_ai :: "(exn + js) \<Rightarrow> ai_facility" where
  "ready_ai out =
     \<lparr>canCreateTextSession = Some (\<lambda>n. Inr (JStr ''readily'')),
      createTextSession = Some (\<lambda>opts. Inr (\<lambda>prompt. out))\<rparr>"

text \<open>The server route answering as it does without an API key.\<close>

definition stub_server :: "string \<Rightarrow> exn + http_response" where
  "stub_server body =
     Inr \<lparr>r_ok = True, r_status = 200, r_json = Inr (payload stub_reply), r_text = Inr []\<rparr>"

definition ready_browser :: "(exn + js) \<Rightarrow> browser" where
  "ready_browser out =
     \<lparr>has_window = True, window_ai = Some (ready_ai out), fetch_advice = stub_server\<rparr>"

definition plain_browser :: browser where
  "plain_browser = \<lparr>has_window = True, window_ai = None, fetch_advice = stub_server\<rparr>"

subsection \<open>Which path an action takes\<close>

text \<open>\<^verbatim>\<open>window.ai.canCreateTextSession\<close>, when \<^verbatim>\<open>window.ai\<close> is there and the property is a function.\<close>

definition readiness_fn :: "browser \<Rightarrow> (nat \<Rightarrow> exn + js) option" where
  "readiness_fn b = (case window_ai b of None \<Rightarrow> None | Some ai \<Rightarrow> canCreateTextSession ai)"

text \<open>
  What the condition of line 67 sees in an action started in world \<open>w\<close>: \<open>None\<close> when the
  Prompt API is not supported (no query is made), else the outcome of
  \<^verbatim>\<open>window.ai?.canCreateTextSession?.()\<close>.
\<close>

definition readiness_answer :: "browser \<Rightarrow> world \<Rightarrow> (exn + js) option" where
  "readiness_answer b w =
     (if supportsPromptAPI b then
        (case readiness_fn b of
           None \<Rightarrow> Some (Inr JUndefined)
         | Some query \<Rightarrow> Some (query (readiness_queries (trace w))))
      else None)"

definition enters_on_device :: "browser \<Rightarrow> world \<Rightarrow> bool" where
  "enters_on_device b w =
     (readiness_answer b w = Some (Inr (JStr ''readily'')) \<or>
      readiness_answer b w = Some (Inr (JStr ''after-download'')))"

definition skips_on_device :: "browser \<Rightarrow> world \<Rightarrow> bool" where
  "skips_on_device b w =
     (case readiness_answer b w of
        None \<Rightarrow> True
      | Some (Inl e) \<Rightarrow> False
      | Some (Inr can) \<Rightarrow> can \<noteq> JStr ''readily'' \<and> can \<noteq> JStr ''after-download'')"

text \<open>The readiness query of an action, if it makes one.\<close>

definition readiness_events :: "browser \<Rightarrow> event list" where
  "readiness_events b =
     (if supportsPromptAPI b \<and> readiness_fn b \<noteq> None then [ReadinessQuery] else [])"

definition with_status :: "js \<Rightarrow> world \<Rightarrow> world" where
  "with_status s w = w\<lparr>ui := (ui w)\<lparr>aiStatus := s\<rparr>\<rparr>"

definition after_query :: "browser \<Rightarrow> world \<Rightarrow> world" where
  "after_query b w = w\<lparr>trace := trace w @ readiness_events b\<rparr>"

section \<open>Properties of the API route\<close>

subsection \<open>The loops and the candidate list\<close>

lemma try_models_cascade:
  "try_models rt fetch k p ver ms st = cascade rt fetch k p (map (Pair ver) ms) st"
  by (induction ms arbitrary: st) (auto split: prod.splits sum.splits option.splits)

lemma cascade_append:
  "cascade rt fetch k p (xs @ ys) st =
     (case cascade rt fetch k p xs st of
        (Inr None, st') \<Rightarrow> cascade rt fetch k p ys st'
      | (e, st') \<Rightarrow> (e, st'))"
  by (induction xs arbitrary: st) (auto split: prod.splits sum.splits option.splits)

lemma try_versions_cascade:
  "try_versions rt fetch k p vs ms st = cascade rt fetch k p (List.product vs ms) st"
  by (induction vs arbitrary: st)
     (auto simp: try_models_cascade cascade_append split: prod.splits sum.splits option.splits)

lemma attempt_client_failure:
  assumes "client_failure rt fetch k p c"
  shows "attempt rt fetch k p (fst c) (snd c) st =
           (Inr None, st\<lparr>calls := calls st @ [candidate_url rt k c],
                          lastErrText := recorded_error c (error_body rt fetch k p c)\<rparr>)"
  using assms
  by (auto simp: client_failure_def attempt_def candidate_url_def recorded_error_def
        error_body_def Let_def split: sum.splits)

lemma cascade_client_failures:
  assumes "\<forall>c \<in> set cs. client_failure rt fetch k p c"
  shows "cascade rt fetch k p cs st =
           (Inr None, st\<lparr>calls := calls st @ map (candidate_url rt k) cs,
                          lastErrText := (if cs = [] then lastErrText st
                                          else recorded_error (last cs) (error_body rt fetch k p (last cs)))\<rparr>)"
  using assms
proof (induction cs arbitrary: st)
  case Nil
  then show ?case by simp
next
  case (Cons c cs)
  then show ?case by (simp add: attempt_client_failure)
qed


lemma attempt_calls:
  "calls (snd (attempt rt fetch k p (fst c) (snd c) st)) = calls st @ [candidate_url rt k c]"
  by (auto simp: attempt_def candidate_url_def Let_def split: sum.splits)


lemma attempt_ok:
  assumes "fetch (candidate_url rt k c) (request_body rt p) = Inr r" "r_ok r" "r_json r = Inr data"
  shows "attempt rt fetch k p (fst c) (snd c) st =
           (Inr (Some (success_reply (fst c) (snd c) data)), st\<lparr>calls := calls st @ [candidate_url rt k c]\<rparr>)"
  using assms by (simp add: attempt_def candidate_url_def success_reply_def Let_def)

lemma attempt_server_error:
  assumes "fetch (candidate_url rt k c) (request_body rt p) = Inr r" "\<not> r_ok r"
    "r_text r = Inr t" "r_status r \<ge> 500"
  shows "attempt rt fetch k p (fst c) (snd c) st =
           (Inl (Error (''Gemini API server error '' @ to_String rt (JNum (of_nat (r_status r))) @ '': '' @ t)),
            st\<lparr>calls := calls st @ [candidate_url rt k c], lastErrText := recorded_error c t\<rparr>)"
  using assms by (simp add: attempt_def candidate_url_def recorded_error_def Let_def)

lemma attempt_returns:
  assumes "attempt rt fetch k p (fst c) (snd c) st = (Inr (Some rep), st')"
  shows "\<exists>r data. fetch (candidate_url rt k c) (request_body rt p) = Inr r \<and> r_ok r \<and>
           r_json r = Inr data \<and> rep = success_reply (fst c) (snd c) data"
  using assms
  by (auto simp: attempt_def candidate_url_def success_reply_def Let_def split: sum.splits if_splits)

lemma cascade_returns:
  assumes "cascade rt fetch k p cs st = (Inr (Some rep), st')"
  shows "\<exists>c \<in> set cs. \<exists>r data. fetch (candidate_url rt k c) (request_body rt p) = Inr r \<and> r_ok r \<and>
           r_json r = Inr data \<and> rep = success_reply (fst c) (snd c) data"
  using assms
proof (induction cs arbitrary: st)
  case Nil
  then show ?case by simp
next
  case (Cons c cs)
  obtain e st1 where a: "attempt rt fetch k p (fst c) (snd c) st = (e, st1)"
    by (cases "attempt rt fetch k p (fst c) (snd c) st")
  show ?case
  proof (cases "e = Inr None")
    case True
    then have "cascade rt fetch k p cs st1 = (Inr (Some rep), st')"
      using Cons.prems a by simp
    from Cons.IH [OF this] show ?thesis by auto
  next
    case False
    then have "e = Inr (Some rep)" "st1 = st'"
      using Cons.prems a by (auto split: sum.splits option.splits)
    then show ?thesis using attempt_returns a by fastforce
  qed
qed

lemma cascade_after_failures:
  assumes "\<forall>x \<in> set pre. client_failure rt fetch k p x"
  shows "cascade rt fetch k p (pre @ cs) st =
           cascade rt fetch k p cs
             (st\<lparr>calls := calls st @ map (candidate_url rt k) pre,
                  lastErrText := (if pre = [] then lastErrText st
                                  else recorded_error (last pre) (error_body rt fetch k p (last pre)))\<rparr>)"
  by (simp add: cascade_append cascade_client_failures [OF assms])

lemma handler_try_cascade:
  assumes "GEMINI_API_KEY env = Some k" "k \<noteq> []" "request_prompt rt req = Inr p"
  shows "handler_try rt env fetch req =
           (case cascade rt fetch k p (candidates env)
                   \<lparr>lastErrText = [], calls = []\<rparr> of
              (Inl e, st) \<Rightarrow> (Inl e, calls st)
            | (Inr (Some r), st) \<Rightarrow> (Inr r, calls st)
            | (Inr None, st) \<Rightarrow>
                (Inr (fallback_reply (lastErrText st)), calls st))"
  using assms by (simp add: handler_try_def candidates_def try_versions_cascade)

lemma handler_try_prompt_throws:
  assumes "request_prompt rt req = Inl e"
  shows "handler_try rt env fetch req = (Inl e, [])"
  using assms by (simp add: handler_try_def)

lemma set_add_all_set: "set (set_add_all seen xs) = set seen \<union> set xs"
  by (induction xs arbitrary: seen) auto

lemma set_add_all_distinct: "distinct seen \<Longrightarrow> distinct (set_add_all seen xs)"
  by (induction xs arbitrary: seen) auto

lemma set_add_all_prefix: "prefix seen (set_add_all seen xs)"
proof (induction xs arbitrary: seen)
  case Nil
  then show ?case by simp
next
  case (Cons x xs)
  have "prefix seen (if x \<in> set seen then seen else seen @ [x])" by simp
  also have "prefix \<dots> (set_add_all (if x \<in> set seen then seen else seen @ [x]) xs)"
    by (rule Cons.IH)
  finally show ?case by simp
qed

lemma array_from_set_hd: "hd (array_from_set (x # xs)) = x"
proof -
  have "prefix [x] (set_add_all [x] xs)" by (rule set_add_all_prefix)
  then obtain zs where "set_add_all [x] xs = [x] @ zs" by (auto simp: prefix_def)
  then show ?thesis by (simp add: array_from_set_def)
qed

lemma array_from_set_nonempty: "array_from_set (x # xs) \<noteq> []"
proof -
  have "x \<in> set (array_from_set (x # xs))"
    by (simp add: array_from_set_def set_add_all_set)
  then show ?thesis by auto
qed

lemma models_distinct: "distinct (models env)"
  by (simp add: models_def array_from_set_def set_add_all_distinct)

lemma models_hd: "hd (models env) = preferred env"
  by (simp add: models_def array_from_set_hd)

lemma models_nonempty: "models env \<noteq> []"
  by (simp add: models_def array_from_set_nonempty)

lemma candidates_hd: "snd (hd (candidates env)) = preferred env"
proof -
  obtain m ms where ms: "models env = m # ms"
    using models_nonempty [of env] by (cases "models env") auto
  then have "m = preferred env" using models_hd [of env] by simp
  then show ?thesis by (simp add: candidates_def versions_def ms)
qed

lemma candidates_nonempty: "candidates env \<noteq> []"
proof -
  obtain m ms where ms: "models env = m # ms"
    using models_nonempty [of env] by (cases "models env") auto
  then show ?thesis by (simp add: candidates_def versions_def ms)
qed

lemma candidates_distinct: "distinct (candidates env)"
proof -
  have "distinct versions" by (simp add: versions_def)
  then show ?thesis
    unfolding candidates_def using models_distinct by (rule distinct_product)
qed

text \<open>
  Distinct candidates have distinct URLs, so within one request no URL is fetched twice:
  a provider given as a function of the URL and the body covers every behaviour a request
  can meet.
\<close>

lemma url_of_inj:
  assumes "v \<in> set versions" "v' \<in> set versions" "url_of rt k v m = url_of rt k v' m'"
  shows "v = v' \<and> m = m'"
  using assms by (auto simp: url_of_def versions_def)

lemma candidate_urls_distinct: "distinct (map (candidate_url rt k) (candidates env))"
proof -
  have "inj_on (candidate_url rt k) (set (candidates env))"
  proof (rule inj_onI)
    fix x y
    assume x: "x \<in> set (candidates env)" and y: "y \<in> set (candidates env)"
      and e: "candidate_url rt k x = candidate_url rt k y"
    have "fst x \<in> set versions" "fst y \<in> set versions"
      using x y by (auto simp: candidates_def)
    then have "fst x = fst y \<and> snd x = snd y"
      using e url_of_inj [of "fst x" "fst y" rt k "snd x" "snd y"] by (simp add: candidate_url_def)
    then show "x = y" by (simp add: prod_eq_iff)
  qed
  then show ?thesis by (simp add: distinct_map candidates_distinct)
qed

lemma cascade_calls_take:
  "\<exists>n. calls (snd (cascade rt fetch k p cs st)) = calls st @ map (candidate_url rt k) (take n cs)"
proof (induction cs arbitrary: st)
  case Nil
  then show ?case by simp
next
  case (Cons c cs)
  obtain e st' where a: "attempt rt fetch k p (fst c) (snd c) st = (e, st')"
    by (cases "attempt rt fetch k p (fst c) (snd c) st")
  have c: "calls st' = calls st @ [candidate_url rt k c]"
    using attempt_calls [of rt fetch k p c st] a by simp
  show ?case
  proof (cases "e = Inr None")
    case True
    obtain n where "calls (snd (cascade rt fetch k p cs st')) = calls st' @ map (candidate_url rt k) (take n cs)"
      using Cons.IH by blast
    then have "calls (snd (cascade rt fetch k p (c # cs) st)) = calls st @ map (candidate_url rt k) (take (Suc n) (c # cs))"
      using a True c by simp
    then show ?thesis by blast
  next
    case False
    then have "calls (snd (cascade rt fetch k p (c # cs) st)) = calls st @ map (candidate_url rt k) (take (Suc 0) (c # cs))"
      using a c by (auto split: sum.splits option.splits)
    then show ?thesis by blast
  qed
qed

lemma handler_try_calls:
  assumes "GEMINI_API_KEY env = Some k" "k \<noteq> []" "request_prompt rt req = Inr p"
  shows "snd (handler_try rt env fetch req) =
           calls (snd (cascade rt fetch k p (candidates env) \<lparr>lastErrText = [], calls = []\<rparr>))"
  by (simp add: handler_try_cascade [OF assms] split: prod.splits sum.splits option.splits)

text \<open>
  Claim C7. The candidate list holds no pair (version, model) twice and is never empty.
  When \<^verbatim>\<open>GEMINI_MODEL\<close> is set to a non-empty identifier, the model of the first candidate is
  that identifier; when it is unset (or set to the empty string, which \<^verbatim>\<open>||\<close> treats alike),
  it is the built-in default \<^verbatim>\<open>gemini-1.5-flash\<close>. The provider calls of a request are the
  URLs of an initial segment of this list, in its order.
\<close>
theorem candidate_list_distinct_preferred_first:
  "distinct (candidates env) \<and> candidates env \<noteq> [] \<and>
   (\<forall>m. GEMINI_MODEL env = Some m \<and> m \<noteq> [] \<longrightarrow> snd (hd (candidates env)) = m) \<and>
   (GEMINI_MODEL env = None \<or> GEMINI_MODEL env = Some [] \<longrightarrow>
      snd (hd (candidates env)) = ''gemini-1.5-flash'') \<and>
   (\<forall>k. GEMINI_API_KEY env = Some k \<and> k \<noteq> [] \<longrightarrow>
      (\<exists>n. snd (handler_try rt env fetch req) = map (candidate_url rt k) (take n (candidates env))))"
proof -
  have "\<exists>n. snd (handler_try rt env fetch req) = map (candidate_url rt k) (take n (candidates env))"
    if key: "GEMINI_API_KEY env = Some k" "k \<noteq> []" for k
  proof (cases "request_prompt rt req")
    case (Inl e)
    then have "snd (handler_try rt env fetch req) = map (candidate_url rt k) (take 0 (candidates env))"
      by (simp add: handler_try_prompt_throws)
    then show ?thesis by blast
  next
    case (Inr p)
    show ?thesis
      using cascade_calls_take [of rt fetch k p "candidates env" "\<lparr>lastErrText = [], calls = []\<rparr>"]
        handler_try_calls [OF key Inr] by simp
  qed
  then show ?thesis
    by (auto simp: candidates_distinct candidates_nonempty candidates_hd preferred_def)
qed

text \<open>With \<^verbatim>\<open>GEMINI_MODEL=gemini-2.0-flash\<close> that model comes first; unset, the default does.\<close>

theorem candidate_list_distinct_preferred_first_witness:
  "GEMINI_MODEL sample_env = Some ''gemini-2.0-flash'' \<and> ''gemini-2.0-flash'' \<noteq> [] \<and>
   snd (hd (candidates sample_env)) = ''gemini-2.0-flash'' \<and>
   snd (hd (candidates (sample_env\<lparr>GEMINI_MODEL := None\<rparr>))) = ''gemini-1.5-flash'' \<and>
   distinct (candidates sample_env)"
  using candidate_list_distinct_preferred_first [of sample_env sample_rt "always not_found" sample_request]
    candidate_list_distinct_preferred_first [of "sample_env\<lparr>GEMINI_MODEL := None\<rparr>" sample_rt "always not_found" sample_request]
  by (simp add: sample_env_def)

subsection \<open>Replies of the route\<close>

lemma join_nonempty: "x \<noteq> [] \<Longrightarrow> join sep (x # xs) \<noteq> []"
  by (cases xs) auto

lemma stub_no_key_nonempty: "stub_no_key \<noteq> []"
  unfolding stub_no_key_def by (rule join_nonempty) simp

lemma stub_unavailable_nonempty: "stub_unavailable \<noteq> []"
  unfolding stub_unavailable_def by (rule join_nonempty) simp

lemma stub_on_error_nonempty: "stub_on_error \<noteq> []"
  unfolding stub_on_error_def by (rule join_nonempty) simp

lemma handler_try_no_key:
  assumes "GEMINI_API_KEY env = None \<or> GEMINI_API_KEY env = Some []" "request_prompt rt req = Inr p"
  shows "handler_try rt env fetch req = (Inr stub_reply, [])"
  using assms by (auto simp: handler_try_def)

lemma handler_try_no_key_calls:
  assumes "GEMINI_API_KEY env = None \<or> GEMINI_API_KEY env = Some []"
  shows "snd (handler_try rt env fetch req) = []"
proof (cases "request_prompt rt req")
  case (Inl e)
  then show ?thesis by (simp add: handler_try_def)
next
  case (Inr p)
  then show ?thesis using assms by (auto simp: handler_try_def)
qed

lemma handler_post:
  assumes "req_method req = ''POST''"
  shows "handler rt env fetch req =
           (case handler_try rt env fetch req of
              (Inr r, cs) \<Rightarrow> (r, cs)
            | (Inl err, cs) \<Rightarrow> (error_reply, cs))"
  using assms by (simp add: handler_def)

lemma js_String_string [simp]: "js_String rt (JStr s) = Inr s"
  by (simp add: js_String_def)

lemma build_prompt_strings:
  "\<exists>p. build_prompt rt mode (JStr l) (JStr a) cx = Inr p"
  by (simp add: build_prompt_def)

text \<open>
  Claim C6 says a request without an API key is always answered with provider tag
  \<^verbatim>\<open>stub\<close>. The prompt is built before the key is looked at: a translate request whose
  \<^verbatim>\<open>language\<close> is the object \<^verbatim>\<open>{"toString": null}\<close> throws there, and the answer is the error
  stub with provider tag \<^verbatim>\<open>stub-error\<close>.
\<close>
theorem no_credential_unconvertible_language_gets_error_stub:
  "req_method odd_request = ''POST''
   \<and> GEMINI_API_KEY (sample_env\<lparr>GEMINI_API_KEY := None\<rparr>) = None
   \<and> handler sample_rt (sample_env\<lparr>GEMINI_API_KEY := None\<rparr>) (always ok_with_text) odd_request =
       (\<lparr>status_code = 200,
         payload = JObj [(''text'', JStr stub_on_error), (''provider'', JStr ''stub-error'')]\<rparr>, [])"
proof -
  have post: "req_method odd_request = ''POST''"
    by (simp add: odd_request_def)
  have "request_prompt sample_rt odd_request = Inl (TypeError ''Cannot convert object to primitive value'')"
    by (simp add: request_prompt_def odd_request_def field_or_def js_or_def build_prompt_def
        js_String_def sample_rt_def)
  then have "handler_try sample_rt (sample_env\<lparr>GEMINI_API_KEY := None\<rparr>) (always ok_with_text) odd_request =
      (Inl (TypeError ''Cannot convert object to primitive value''), [])"
    by (rule handler_try_prompt_throws)
  then show ?thesis
    by (simp add: handler_post [OF post] post error_reply_def)
qed

text \<open>
  Claim C6, amended. With no API key (the variable unset, or empty) a POST request never
  enters the loops and no provider call is issued. When the prompt can be built, as it
  always can when \<^verbatim>\<open>language\<close> and \<^verbatim>\<open>advice\<close> are strings or absent, the answer is status
  200 with provider tag \<^verbatim>\<open>stub\<close> and the fixed demo text, which is not empty. When building
  the prompt throws, the catch block answers with the error stub and provider tag
  \<^verbatim>\<open>stub-error\<close>.
\<close>
theorem no_credential_skips_the_cascade:
  assumes "req_method req = ''POST''"
    and "GEMINI_API_KEY env = None \<or> GEMINI_API_KEY env = Some []"
  shows "snd (handler rt env fetch req) = []
       \<and> (\<forall>p. request_prompt rt req = Inr p \<longrightarrow>
             handler rt env fetch req =
               (\<lparr>status_code = 200,
                 payload = JObj [(''text'', JStr stub_no_key), (''provider'', JStr ''stub'')]\<rparr>, []))
       \<and> (\<forall>e. request_prompt rt req = Inl e \<longrightarrow>
             handler rt env fetch req =
               (\<lparr>status_code = 200,
                 payload = JObj [(''text'', JStr stub_on_error), (''provider'', JStr ''stub-error'')]\<rparr>, []))
       \<and> (\<forall>l a. field_or (js_or (req_body req) (JObj [])) ''language'' (JStr ''en'') = JStr l \<and>
                field_or (js_or (req_body req) (JObj [])) ''advice'' (JStr []) = JStr a \<longrightarrow>
                (\<exists>p. request_prompt rt req = Inr p))
       \<and> stub_no_key \<noteq> [] \<and> stub_on_error \<noteq> []"
proof (intro conjI allI impI)
  obtain r cs where h: "handler_try rt env fetch req = (r, cs)"
    by (cases "handler_try rt env fetch req")
  then have "cs = []"
    using handler_try_no_key_calls [OF assms(2), of rt fetch req] by simp
  then show "snd (handler rt env fetch req) = []"
    using h by (simp add: handler_post [OF assms(1)] split: sum.splits)
next
  fix p assume "request_prompt rt req = Inr p"
  then show "handler rt env fetch req =
               (\<lparr>status_code = 200,
                 payload = JObj [(''text'', JStr stub_no_key), (''provider'', JStr ''stub'')]\<rparr>, [])"
    using handler_try_no_key [OF assms(2), of rt req p fetch]
    by (simp add: handler_post [OF assms(1)] stub_reply_def)
next
  fix e assume "request_prompt rt req = Inl e"
  then show "handler rt env fetch req =
               (\<lparr>status_code = 200,
                 payload = JObj [(''text'', JStr stub_on_error), (''provider'', JStr ''stub-error'')]\<rparr>, [])"
    using handler_try_prompt_throws [of rt req e env fetch]
    by (simp add: handler_post [OF assms(1)] error_reply_def)
next
  fix l a
  assume "field_or (js_or (req_body req) (JObj [])) ''language'' (JStr ''en'') = JStr l \<and>
                field_or (js_or (req_body req) (JObj [])) ''advice'' (JStr []) = JStr a"
  then show "\<exists>p. request_prompt rt req = Inr p"
    using build_prompt_strings by (simp add: request_prompt_def Let_def)
next
  show "stub_no_key \<noteq> []" by (rule stub_no_key_nonempty)
next
  show "stub_on_error \<noteq> []" by (rule stub_on_error_nonempty)
qed

text \<open>The sample request against an environment without a key.\<close>

theorem no_credential_skips_the_cascade_witness:
  "req_method sample_request = ''POST'' \<and>
   GEMINI_API_KEY (sample_env\<lparr>GEMINI_API_KEY := None\<rparr>) = None \<and>
   handler sample_rt (sample_env\<lparr>GEMINI_API_KEY := None\<rparr>) (always ok_with_text) sample_request =
     (\<lparr>status_code = 200,
       payload = JObj [(''text'', JStr stub_no_key), (''provider'', JStr ''stub'')]\<rparr>, [])"
proof -
  let ?env = "sample_env\<lparr>GEMINI_API_KEY := None\<rparr>"
  have post: "req_method sample_request = ''POST''"
    by (simp add: sample_request_def)
  have nokey: "GEMINI_API_KEY ?env = None \<or> GEMINI_API_KEY ?env = Some []"
    by simp
  have fields: "field_or (js_or (req_body sample_request) (JObj [])) ''language'' (JStr ''en'') = JStr ''en'' \<and>
      field_or (js_or (req_body sample_request) (JObj [])) ''advice'' (JStr []) = JStr []"
    by (simp add: sample_request_def field_or_def js_or_def)
  note t = no_credential_skips_the_cascade [where rt = sample_rt and fetch = "always ok_with_text", OF post nokey]
  obtain p where p: "request_prompt sample_rt sample_request = Inr p"
    using t [THEN conjunct2, THEN conjunct2, THEN conjunct2, THEN conjunct1, rule_format, OF fields] by blast
  show ?thesis
    using t [THEN conjunct2, THEN conjunct1, rule_format, OF p] post by simp
qed

lemma handler_try_abort:
  assumes key: "GEMINI_API_KEY env = Some k" "k \<noteq> []" "request_prompt rt req = Inr p"
    and split: "candidates env = pre @ c # rest"
    and pre: "\<forall>x \<in> set pre. client_failure rt fetch k p x"
    and resp: "fetch (candidate_url rt k c) (request_body rt p) = Inr r"
      "\<not> r_ok r" "r_text r = Inr t" "r_status r \<ge> 500"
  shows "handler_try rt env fetch req =
           (Inl (Error (''Gemini API server error '' @ to_String rt (JNum (of_nat (r_status r))) @ '': '' @ t)),
            map (candidate_url rt k) (pre @ [c]))"
  by (simp add: handler_try_cascade [OF key] split cascade_after_failures [OF pre]
      attempt_server_error [where fetch=fetch and rt=rt and k=k and c=c and p=p, OF resp])

lemma attempt_server_class:
  assumes "fetch (candidate_url rt k c) (request_body rt p) = Inr r" "\<not> r_ok r" "r_status r \<ge> 500"
  shows "\<exists>e st'. attempt rt fetch k p (fst c) (snd c) st = (Inl e, st') \<and>
           calls st' = calls st @ [candidate_url rt k c]"
  using assms by (cases "r_text r") (simp_all add: attempt_def candidate_url_def Let_def)

lemma handler_try_abort_any:
  assumes key: "GEMINI_API_KEY env = Some k" "k \<noteq> []" "request_prompt rt req = Inr p"
    and split: "candidates env = pre @ c # rest"
    and pre: "\<forall>x \<in> set pre. client_failure rt fetch k p x"
    and resp: "fetch (candidate_url rt k c) (request_body rt p) = Inr r"
      "\<not> r_ok r" "r_status r \<ge> 500"
  shows "\<exists>e. handler_try rt env fetch req = (Inl e, map (candidate_url rt k) (pre @ [c]))"
proof -
  let ?p = "p"
  let ?st = "\<lparr>lastErrText = [], calls = []\<rparr>\<lparr>calls := calls \<lparr>lastErrText = [], calls = []\<rparr> @ map (candidate_url rt k) pre,
      lastErrText := (if pre = [] then lastErrText \<lparr>lastErrText = [], calls = []\<rparr>
                      else recorded_error (last pre) (error_body rt fetch k ?p (last pre)))\<rparr>"
  obtain e st' where a: "attempt rt fetch k ?p (fst c) (snd c) ?st = (Inl e, st')"
      "calls st' = calls ?st @ [candidate_url rt k c]"
    using attempt_server_class [where fetch = fetch and rt = rt and k = k and c = c and p = ?p and st = ?st, OF resp]
    by blast
  have "handler_try rt env fetch req = (Inl e, calls st')"
    using a(1) by (simp add: handler_try_cascade [OF key] split cascade_after_failures [OF pre])
  then show ?thesis using a(2) by simp
qed

lemma handler_try_success:
  assumes key: "GEMINI_API_KEY env = Some k" "k \<noteq> []" "request_prompt rt req = Inr p"
    and split: "candidates env = pre @ c # rest"
    and pre: "\<forall>x \<in> set pre. client_failure rt fetch k p x"
    and resp: "fetch (candidate_url rt k c) (request_body rt p) = Inr r"
      "r_ok r" "r_json r = Inr data"
  shows "handler_try rt env fetch req =
           (Inr (success_reply (fst c) (snd c) data), map (candidate_url rt k) (pre @ [c]))"
  by (simp add: handler_try_cascade [OF key] split cascade_after_failures [OF pre]
      attempt_ok [where fetch=fetch and rt=rt and k=k and c=c and p=p, OF resp])



lemma sample_candidates:
  "candidates sample_env =
     [(''v1beta'', ''gemini-2.0-flash''), (''v1beta'', ''gemini-2.0-flash-latest''),
      (''v1beta'', ''gemini-2.0-flash-002''), (''v1beta'', ''gemini-1.5-flash-8b''),
      (''v1beta'', ''gemini-1.5-flash-8b-latest''), (''v1beta'', ''gemini-1.5-flash''),
      (''v1beta'', ''gemini-1.5-flash-latest''), (''v1beta'', ''gemini-1.5-pro''),
      (''v1'', ''gemini-2.0-flash''), (''v1'', ''gemini-2.0-flash-latest''),
      (''v1'', ''gemini-2.0-flash-002''), (''v1'', ''gemini-1.5-flash-8b''),
      (''v1'', ''gemini-1.5-flash-8b-latest''), (''v1'', ''gemini-1.5-flash''),
      (''v1'', ''gemini-1.5-flash-latest''), (''v1'', ''gemini-1.5-pro'')]"
  by (simp add: candidates_def versions_def models_def preferred_def sample_env_def array_from_set_def)

lemma sample_prompt:
  "request_prompt sample_rt sample_request = Inr (projr (request_prompt sample_rt sample_request))"
  by (simp add: request_prompt_def sample_request_def field_or_def js_or_def build_prompt_def)

lemma sample_key:
  "GEMINI_API_KEY sample_env = Some ''key''" "''key'' \<noteq> []"
  "request_prompt sample_rt sample_request = Inr (projr (request_prompt sample_rt sample_request))"
  by (simp_all add: sample_env_def sample_prompt [symmetric])

lemma first_404_first:
  "client_failure sample_rt (first_404_then r) ''key'' p (''v1beta'', ''gemini-2.0-flash'')"
  by (simp add: client_failure_def first_404_then_def candidate_url_def not_found_def)

lemma first_404_second:
  "first_404_then r (candidate_url sample_rt ''key'' (''v1beta'', ''gemini-2.0-flash-latest'')) b = Inr r"
  by (simp add: first_404_then_def candidate_url_def url_of_def)


text \<open>
  Claim C4. For a request whose prompt was built: when the call for a candidate fails with
  a status of 500 or above (every candidate before it having failed with a lower status and
  a readable body), the try block ends there with an
  exception: the calls issued are those up to and including this candidate, and none after
  it. When the error body can be read the exception is
  \<^verbatim>\<open>Gemini API server error <status>: <body>\<close>. With the first candidate answering 503 that
  is exactly one call.
\<close>
theorem server_error_aborts_cascade:
  assumes "GEMINI_API_KEY env = Some k" and "k \<noteq> []"
    and "request_prompt rt req = Inr p"
    and "candidates env = pre @ c # rest"
    and "\<forall>x \<in> set pre. client_failure rt fetch k p x"
    and "fetch (candidate_url rt k c) (request_body rt p) = Inr r"
    and "\<not> r_ok r" and "r_status r \<ge> 500"
  shows "(\<exists>e. handler_try rt env fetch req = (Inl e, map (candidate_url rt k) (pre @ [c])))
       \<and> (\<forall>t. r_text r = Inr t \<longrightarrow>
             handler_try rt env fetch req =
               (Inl (Error (''Gemini API server error '' @ to_String rt (JNum (of_nat (r_status r))) @ '': '' @ t)),
                map (candidate_url rt k) (pre @ [c])))
       \<and> length (snd (handler_try rt env fetch req)) = length pre + 1"
proof -
  obtain e where e: "handler_try rt env fetch req = (Inl e, map (candidate_url rt k) (pre @ [c]))"
    using handler_try_abort_any [OF assms] by blast
  have "handler_try rt env fetch req =
      (Inl (Error (''Gemini API server error '' @ to_String rt (JNum (of_nat (r_status r))) @ '': '' @ t)),
       map (candidate_url rt k) (pre @ [c]))" if "r_text r = Inr t" for t
    using handler_try_abort [OF assms(1-7) that assms(8)] .
  then show ?thesis using e by simp
qed

text \<open>A provider that always answers 503 gets one call; one that answers 404 first and 503 next gets two.\<close>

theorem server_error_aborts_cascade_witness:
  "handler_try sample_rt sample_env (always unavailable) sample_request =
     (Inl (Error (''Gemini API server error '' @ to_String sample_rt (JNum 503) @ '': overloaded'')),
      [candidate_url sample_rt ''key'' (''v1beta'', ''gemini-2.0-flash'')])
   \<and> length (snd (handler_try sample_rt sample_env (always unavailable) sample_request)) = 1
   \<and> handler_try sample_rt sample_env (first_404_then unavailable) sample_request =
     (Inl (Error (''Gemini API server error '' @ to_String sample_rt (JNum 503) @ '': overloaded'')),
      [candidate_url sample_rt ''key'' (''v1beta'', ''gemini-2.0-flash''),
       candidate_url sample_rt ''key'' (''v1beta'', ''gemini-2.0-flash-latest'')])"
proof -
  let ?p = "projr (request_prompt sample_rt sample_request)"
  have r: "\<not> r_ok unavailable" "r_status unavailable \<ge> 500"
    by (simp_all add: unavailable_def)
  have resp1: "always unavailable (candidate_url sample_rt ''key'' (''v1beta'', ''gemini-2.0-flash''))
      (request_body sample_rt ?p) = Inr unavailable"
    by (simp add: always_def)
  have split1: "candidates sample_env = [] @ (''v1beta'', ''gemini-2.0-flash'') # tl (candidates sample_env)"
    by (simp add: sample_candidates)
  have pre1: "\<forall>x \<in> set []. client_failure sample_rt (always unavailable) ''key'' ?p x"
    by simp
  have split2: "candidates sample_env = [(''v1beta'', ''gemini-2.0-flash'')] @
      (''v1beta'', ''gemini-2.0-flash-latest'') # tl (tl (candidates sample_env))"
    by (simp add: sample_candidates)
  have pre2: "\<forall>x \<in> set [(''v1beta'', ''gemini-2.0-flash'')].
      client_failure sample_rt (first_404_then unavailable) ''key'' ?p x"
    by (simp add: first_404_first)
  show ?thesis
    using server_error_aborts_cascade [OF sample_key split1 pre1 resp1 r]
      server_error_aborts_cascade [OF sample_key split2 pre2 first_404_second r]
    by (simp add: unavailable_def)
qed






lemma stub_provider_not_gemini:
  "get_prop (payload stub_reply) ''provider'' \<noteq> JStr (''gemini:'' @ x)"
  "get_prop (payload (fallback_reply e)) ''provider'' \<noteq> JStr (''gemini:'' @ x)"
  by (simp_all add: stub_reply_def fallback_reply_def)

lemma handler_try_returns:
  assumes "handler_try rt env fetch req = (Inr rep, cs)"
  shows "\<exists>p. request_prompt rt req = Inr p \<and>
           (rep = stub_reply \<or> (\<exists>e. rep = fallback_reply e) \<or>
            (\<exists>k. GEMINI_API_KEY env = Some k \<and> k \<noteq> [] \<and>
               (\<exists>c \<in> set (candidates env). \<exists>r data.
                  fetch (candidate_url rt k c) (request_body rt p) = Inr r \<and>
                  r_ok r \<and> r_json r = Inr data \<and> rep = success_reply (fst c) (snd c) data)))"
proof (cases "request_prompt rt req")
  case (Inl e)
  then show ?thesis using assms by (simp add: handler_try_prompt_throws)
next
  case (Inr p)
  show ?thesis
  proof (cases "GEMINI_API_KEY env = None \<or> GEMINI_API_KEY env = Some []")
    case True
    then have "handler_try rt env fetch req = (Inr stub_reply, [])"
      using Inr by (rule handler_try_no_key)
    then have "rep = stub_reply" using assms by simp
    then show ?thesis using Inr by simp
  next
    case False
    then obtain k where key: "GEMINI_API_KEY env = Some k" "k \<noteq> []" by auto
    note hc = handler_try_cascade [OF key Inr, of fetch]
    obtain e st where c: "cascade rt fetch k p (candidates env) \<lparr>lastErrText = [], calls = []\<rparr> = (e, st)"
      by (cases "cascade rt fetch k p (candidates env) \<lparr>lastErrText = [], calls = []\<rparr>")
    show ?thesis
    proof (cases e)
      case (Inl a)
      then show ?thesis using assms c by (simp add: hc)
    next
      case inr: (Inr b)
      show ?thesis
      proof (cases b)
        case None
        then have "rep = fallback_reply (lastErrText st)"
          using assms c inr by (simp add: hc)
        then show ?thesis using Inr by blast
      next
        case (Some r)
        then have "cascade rt fetch k p (candidates env) \<lparr>lastErrText = [], calls = []\<rparr> = (Inr (Some rep), st)"
          using assms c inr by (simp add: hc)
        from cascade_returns [OF this] have "\<exists>c \<in> set (candidates env). \<exists>r data.
            fetch (candidate_url rt k c) (request_body rt p) = Inr r \<and>
            r_ok r \<and> r_json r = Inr data \<and> rep = success_reply (fst c) (snd c) data" .
        then show ?thesis using Inr key by blast
      qed
    qed
  qed
qed

lemma handler_try_gemini_origin:
  assumes "handler_try rt env fetch req = (Inr rep, cs)"
    and "get_prop (payload rep) ''provider'' = JStr (''gemini:'' @ x)"
  shows "\<exists>k p. GEMINI_API_KEY env = Some k \<and> k \<noteq> [] \<and> request_prompt rt req = Inr p \<and>
           (\<exists>c \<in> set (candidates env). \<exists>r data.
              fetch (candidate_url rt k c) (request_body rt p) = Inr r \<and>
              r_ok r \<and> r_json r = Inr data \<and> rep = success_reply (fst c) (snd c) data)"
proof -
  obtain p where p: "request_prompt rt req = Inr p"
    and d: "rep = stub_reply \<or> (\<exists>e. rep = fallback_reply e) \<or>
            (\<exists>k. GEMINI_API_KEY env = Some k \<and> k \<noteq> [] \<and>
               (\<exists>c \<in> set (candidates env). \<exists>r data.
                  fetch (candidate_url rt k c) (request_body rt p) = Inr r \<and>
                  r_ok r \<and> r_json r = Inr data \<and> rep = success_reply (fst c) (snd c) data))"
    using handler_try_returns [OF assms(1)] by blast
  have "rep \<noteq> stub_reply"
    using assms(2) stub_provider_not_gemini(1) [of x] by auto
  moreover have "rep \<noteq> fallback_reply e" for e
    using assms(2) stub_provider_not_gemini(2) [of e x] by auto
  ultimately show ?thesis using d p by blast
qed

lemma handler_try_reply_cases:
  assumes "handler_try rt env fetch req = (Inr rep, cs)"
  shows "rep = stub_reply \<or> (\<exists>e. rep = fallback_reply e) \<or> (\<exists>v m data. rep = success_reply v m data)"
  using handler_try_returns [OF assms] by blast

text \<open>
  Claim C3 says a successful HTTP answer is a success exit only when text can be extracted
  from it. It is an exit in any case: here the first candidate answers 200 with no
  candidates in the body, extraction yields undefined, and the route still returns at once
  with that candidate's provider tag and the empty string as text.
\<close>
theorem success_exit_without_text:
  "extract_text (JObj [(''candidates'', JArr [])]) = JUndefined \<and>
   handler sample_rt sample_env (always ok_without_text) sample_request =
     (\<lparr>status_code = 200,
       payload = JObj [(''text'', JStr []), (''provider'', JStr ''gemini:v1beta:gemini-2.0-flash'')]\<rparr>,
      [candidate_url sample_rt ''key'' (''v1beta'', ''gemini-2.0-flash'')])"
proof -
  let ?p = "projr (request_prompt sample_rt sample_request)"
  have x: "extract_text (JObj [(''candidates'', JArr [])]) = JUndefined"
    by (simp add: extract_text_def opt_prop_def opt_idx0_def nullish_def)
  have split: "candidates sample_env = [] @ (''v1beta'', ''gemini-2.0-flash'') # tl (candidates sample_env)"
    by (simp add: sample_candidates)
  have pre: "\<forall>x \<in> set []. client_failure sample_rt (always ok_without_text) ''key'' ?p x"
    by simp
  have resp: "always ok_without_text (candidate_url sample_rt ''key'' (''v1beta'', ''gemini-2.0-flash''))
      (request_body sample_rt ?p) = Inr ok_without_text"
    by (simp add: always_def)
  have r: "r_ok ok_without_text" "r_json ok_without_text = Inr (JObj [(''candidates'', JArr [])])"
    by (simp_all add: ok_without_text_def)
  have post: "req_method sample_request = ''POST''"
    by (simp add: sample_request_def)
  show ?thesis
    using handler_try_success [OF sample_key split pre resp r] x
    by (simp add: handler_post [OF post] success_reply_def js_or_def)
qed

text \<open>
  Claim C3, amended. A candidate whose call answers with \<^verbatim>\<open>r.ok\<close> and a body that parses is a
  success exit whether or not text can be extracted: the route returns at once, after the
  calls up to this candidate and no more, with status 200, provider tag
  \<^verbatim>\<open>gemini:<version>:<model>\<close> of exactly this candidate, and as text the extracted value, or
  the empty string when extraction yields nothing. No other exit carries a provider tag
  that starts with \<^verbatim>\<open>gemini:\<close>.
\<close>
theorem ok_response_is_the_only_success_exit:
  "(\<forall>k p pre c rest r data.
      GEMINI_API_KEY env = Some k \<and> k \<noteq> [] \<and> request_prompt rt req = Inr p \<and>
      candidates env = pre @ c # rest \<and>
      (\<forall>x \<in> set pre. client_failure rt fetch k p x) \<and>
      fetch (candidate_url rt k c) (request_body rt p) = Inr r \<and>
      r_ok r \<and> r_json r = Inr data \<longrightarrow>
      handler_try rt env fetch req =
        (Inr \<lparr>status_code = 200,
              payload = JObj [(''text'', js_or (extract_text data) (JStr [])),
                              (''provider'', JStr (''gemini:'' @ fst c @ '':'' @ snd c))]\<rparr>,
         map (candidate_url rt k) (pre @ [c])))
   \<and> (\<forall>rep cs x.
        handler_try rt env fetch req = (Inr rep, cs) \<and>
        get_prop (payload rep) ''provider'' = JStr (''gemini:'' @ x) \<longrightarrow>
        (\<exists>k p. GEMINI_API_KEY env = Some k \<and> k \<noteq> [] \<and> request_prompt rt req = Inr p \<and>
           (\<exists>c \<in> set (candidates env). \<exists>r data.
              fetch (candidate_url rt k c) (request_body rt p) = Inr r \<and>
              r_ok r \<and> r_json r = Inr data \<and>
              rep = \<lparr>status_code = 200,
                      payload = JObj [(''text'', js_or (extract_text data) (JStr [])),
                                      (''provider'', JStr (''gemini:'' @ fst c @ '':'' @ snd c))]\<rparr>)))"
proof (intro conjI allI impI)
  fix k p pre c rest r data
  assume a: "GEMINI_API_KEY env = Some k \<and> k \<noteq> [] \<and> request_prompt rt req = Inr p \<and>
      candidates env = pre @ c # rest \<and>
      (\<forall>x \<in> set pre. client_failure rt fetch k p x) \<and>
      fetch (candidate_url rt k c) (request_body rt p) = Inr r \<and>
      r_ok r \<and> r_json r = Inr data"
  then have "handler_try rt env fetch req =
      (Inr (success_reply (fst c) (snd c) data), map (candidate_url rt k) (pre @ [c]))"
    using handler_try_success [of env k rt req p pre c rest fetch r data] by blast
  then show "handler_try rt env fetch req =
        (Inr \<lparr>status_code = 200,
              payload = JObj [(''text'', js_or (extract_text data) (JStr [])),
                              (''provider'', JStr (''gemini:'' @ fst c @ '':'' @ snd c))]\<rparr>,
         map (candidate_url rt k) (pre @ [c]))"
    by (simp add: success_reply_def)
next
  fix rep cs x
  assume a: "handler_try rt env fetch req = (Inr rep, cs) \<and>
        get_prop (payload rep) ''provider'' = JStr (''gemini:'' @ x)"
  then have "\<exists>k p. GEMINI_API_KEY env = Some k \<and> k \<noteq> [] \<and> request_prompt rt req = Inr p \<and>
           (\<exists>c \<in> set (candidates env). \<exists>r data.
              fetch (candidate_url rt k c) (request_body rt p) = Inr r \<and>
              r_ok r \<and> r_json r = Inr data \<and> rep = success_reply (fst c) (snd c) data)"
    using handler_try_gemini_origin [of rt env fetch req rep cs x] by blast
  then show "\<exists>k p. GEMINI_API_KEY env = Some k \<and> k \<noteq> [] \<and> request_prompt rt req = Inr p \<and>
           (\<exists>c \<in> set (candidates env). \<exists>r data.
              fetch (candidate_url rt k c) (request_body rt p) = Inr r \<and>
              r_ok r \<and> r_json r = Inr data \<and>
              rep = \<lparr>status_code = 200,
                      payload = JObj [(''text'', js_or (extract_text data) (JStr [])),
                                      (''provider'', JStr (''gemini:'' @ fst c @ '':'' @ snd c))]\<rparr>)"
    by (simp add: success_reply_def)
qed

text \<open>A provider that answers 404 to the first candidate and a text to the second.\<close>

theorem ok_response_is_the_only_success_exit_witness:
  "handler_try sample_rt sample_env (first_404_then ok_with_text) sample_request =
     (Inr \<lparr>status_code = 200,
           payload = JObj [(''text'', JStr ''Pack an umbrella.''),
                           (''provider'', JStr ''gemini:v1beta:gemini-2.0-flash-latest'')]\<rparr>,
      [candidate_url sample_rt ''key'' (''v1beta'', ''gemini-2.0-flash''),
       candidate_url sample_rt ''key'' (''v1beta'', ''gemini-2.0-flash-latest'')])"
proof -
  let ?p = "projr (request_prompt sample_rt sample_request)"
  let ?data = "JObj [(''candidates'',
                 JArr [JObj [(''content'', JObj [(''parts'', JArr [JObj [(''text'', JStr ''Pack an umbrella.'')]])])]])]"
  have x: "js_or (extract_text ?data) (JStr []) = JStr ''Pack an umbrella.''"
    by (simp add: extract_text_def opt_prop_def opt_idx0_def nullish_def js_or_def)
  have split: "candidates sample_env = [(''v1beta'', ''gemini-2.0-flash'')] @
      (''v1beta'', ''gemini-2.0-flash-latest'') # tl (tl (candidates sample_env))"
    by (simp add: sample_candidates)
  have pre: "\<forall>x \<in> set [(''v1beta'', ''gemini-2.0-flash'')].
      client_failure sample_rt (first_404_then ok_with_text) ''key'' ?p x"
    by (simp add: first_404_first)
  have r: "r_ok ok_with_text" "r_json ok_with_text = Inr ?data"
    by (simp_all add: ok_with_text_def)
  have "GEMINI_API_KEY sample_env = Some ''key'' \<and> ''key'' \<noteq> [] \<and>
      request_prompt sample_rt sample_request = Inr ?p \<and>
      candidates sample_env = [(''v1beta'', ''gemini-2.0-flash'')] @
        (''v1beta'', ''gemini-2.0-flash-latest'') # tl (tl (candidates sample_env)) \<and>
      (\<forall>x \<in> set [(''v1beta'', ''gemini-2.0-flash'')].
         client_failure sample_rt (first_404_then ok_with_text) ''key'' ?p x) \<and>
      first_404_then ok_with_text (candidate_url sample_rt ''key'' (''v1beta'', ''gemini-2.0-flash-latest''))
        (request_body sample_rt ?p) = Inr ok_with_text \<and>
      r_ok ok_with_text \<and> r_json ok_with_text = Inr ?data"
    using sample_key split pre first_404_second r by blast
  then have "handler_try sample_rt sample_env (first_404_then ok_with_text) sample_request =
        (Inr \<lparr>status_code = 200,
              payload = JObj [(''text'', js_or (extract_text ?data) (JStr [])),
                              (''provider'', JStr (''gemini:'' @ fst (''v1beta'', ''gemini-2.0-flash-latest'') @ '':'' @
                                  snd (''v1beta'', ''gemini-2.0-flash-latest'')))]\<rparr>,
         map (candidate_url sample_rt ''key'') ([(''v1beta'', ''gemini-2.0-flash'')] @ [(''v1beta'', ''gemini-2.0-flash-latest'')]))"
    using ok_response_is_the_only_success_exit [where env = sample_env and rt = sample_rt and fetch = "first_404_then ok_with_text" and req = sample_request]
    by blast
  then show ?thesis by (simp add: x)
qed

lemma handler_reply_cases:
  assumes "req_method req = ''POST''"
  shows "fst (handler rt env fetch req) = stub_reply \<or>
         fst (handler rt env fetch req) = error_reply \<or>
         (\<exists>e. fst (handler rt env fetch req) = fallback_reply e) \<or>
         (\<exists>v m data. fst (handler rt env fetch req) = success_reply v m data)"
proof -
  obtain e cs where t: "handler_try rt env fetch req = (e, cs)"
    by (cases "handler_try rt env fetch req")
  show ?thesis
  proof (cases e)
    case (Inl a)
    then show ?thesis using t by (simp add: handler_post [OF assms])
  next
    case (Inr rep)
    then have "handler_try rt env fetch req = (Inr rep, cs)" using t by simp
    from handler_try_reply_cases [OF this]
    have "rep = stub_reply \<or> (\<exists>e. rep = fallback_reply e) \<or> (\<exists>v m data. rep = success_reply v m data)" .
    moreover have "fst (handler rt env fetch req) = rep"
      using t Inr by (simp add: handler_post [OF assms])
    ultimately show ?thesis by blast
  qed
qed

lemma stub_texts:
  "get_prop (payload stub_reply) ''text'' = JStr stub_no_key"
  "get_prop (payload error_reply) ''text'' = JStr stub_on_error"
  "get_prop (payload (fallback_reply e)) ''text'' = JStr stub_unavailable"
  by (simp_all add: stub_reply_def error_reply_def fallback_reply_def)

lemma success_provider_not_stub:
  "get_prop (payload (success_reply v m data)) ''provider'' \<noteq> JStr ''stub''"
  "get_prop (payload (success_reply v m data)) ''provider'' \<noteq> JStr ''stub-fallback''"
  "get_prop (payload (success_reply v m data)) ''provider'' \<noteq> JStr ''stub-error''"
  by (simp_all add: success_reply_def)

lemma handler_post_reply:
  assumes "req_method req = ''POST''"
  shows "status_code (fst (handler rt env fetch req)) = 200 \<and>
         (\<exists>p. get_prop (payload (fst (handler rt env fetch req))) ''provider'' = JStr p \<and> p \<noteq> [])"
  using handler_reply_cases [OF assms, of rt env fetch]
  by (elim disjE exE) (simp_all add: stub_reply_def error_reply_def fallback_reply_def success_reply_def)

text \<open>
  Claim C10. A POST request is always answered with status 200 and a payload whose
  \<^verbatim>\<open>provider\<close> is a non-empty string. Whatever the try block throws, the abort on a status of
  500 or above included, is caught and answered with the fixed, non-empty error stub and
  provider tag \<^verbatim>\<open>stub-error\<close>. A request with another method gets 405, and that is the only
  answer that is not 200.
\<close>
theorem post_always_answers_200:
  "(req_method req = ''POST'' \<longrightarrow>
      status_code (fst (handler rt env fetch req)) = 200 \<and>
      (\<exists>p. get_prop (payload (fst (handler rt env fetch req))) ''provider'' = JStr p \<and> p \<noteq> []))
   \<and> (\<forall>e cs. req_method req = ''POST'' \<and> handler_try rt env fetch req = (Inl e, cs) \<longrightarrow>
         handler rt env fetch req =
           (\<lparr>status_code = 200,
             payload = JObj [(''text'', JStr stub_on_error), (''provider'', JStr ''stub-error'')]\<rparr>, cs))
   \<and> (\<forall>k p pre c rest r t.
         req_method req = ''POST'' \<and> GEMINI_API_KEY env = Some k \<and> k \<noteq> [] \<and>
         request_prompt rt req = Inr p \<and>
         candidates env = pre @ c # rest \<and>
         (\<forall>x \<in> set pre. client_failure rt fetch k p x) \<and>
         fetch (candidate_url rt k c) (request_body rt p) = Inr r \<and>
         \<not> r_ok r \<and> r_text r = Inr t \<and> r_status r \<ge> 500 \<longrightarrow>
         handler rt env fetch req =
           (\<lparr>status_code = 200,
             payload = JObj [(''text'', JStr stub_on_error), (''provider'', JStr ''stub-error'')]\<rparr>,
            map (candidate_url rt k) (pre @ [c])))
   \<and> stub_on_error \<noteq> []
   \<and> (req_method req \<noteq> ''POST'' \<longrightarrow>
         handler rt env fetch req =
           (\<lparr>status_code = 405, payload = JObj [(''error'', JStr ''Method not allowed'')]\<rparr>, []))
   \<and> (status_code (fst (handler rt env fetch req)) \<noteq> 200 \<longrightarrow>
         req_method req \<noteq> ''POST'' \<and> status_code (fst (handler rt env fetch req)) = 405)"
proof (intro conjI allI impI)
  assume "req_method req = ''POST''"
  then show "status_code (fst (handler rt env fetch req)) = 200"
    and "\<exists>p. get_prop (payload (fst (handler rt env fetch req))) ''provider'' = JStr p \<and> p \<noteq> []"
    using handler_post_reply by blast+
next
  fix e cs
  assume "req_method req = ''POST'' \<and> handler_try rt env fetch req = (Inl e, cs)"
  then show "handler rt env fetch req =
           (\<lparr>status_code = 200,
             payload = JObj [(''text'', JStr stub_on_error), (''provider'', JStr ''stub-error'')]\<rparr>, cs)"
    by (simp add: handler_post error_reply_def)
next
  fix k p pre c rest r t
  assume a: "req_method req = ''POST'' \<and> GEMINI_API_KEY env = Some k \<and> k \<noteq> [] \<and>
         request_prompt rt req = Inr p \<and>
         candidates env = pre @ c # rest \<and>
         (\<forall>x \<in> set pre. client_failure rt fetch k p x) \<and>
         fetch (candidate_url rt k c) (request_body rt p) = Inr r \<and>
         \<not> r_ok r \<and> r_text r = Inr t \<and> r_status r \<ge> 500"
  then have "handler_try rt env fetch req =
           (Inl (Error (''Gemini API server error '' @ to_String rt (JNum (of_nat (r_status r))) @ '': '' @ t)),
            map (candidate_url rt k) (pre @ [c]))"
    using handler_try_abort [of env k rt req p pre c rest fetch r t] by blast
  then show "handler rt env fetch req =
           (\<lparr>status_code = 200,
             payload = JObj [(''text'', JStr stub_on_error), (''provider'', JStr ''stub-error'')]\<rparr>,
            map (candidate_url rt k) (pre @ [c]))"
    using a by (simp add: handler_post error_reply_def)
next
  show "stub_on_error \<noteq> []" by (rule stub_on_error_nonempty)
next
  assume "req_method req \<noteq> ''POST''"
  then show "handler rt env fetch req =
           (\<lparr>status_code = 405, payload = JObj [(''error'', JStr ''Method not allowed'')]\<rparr>, [])"
    by (simp add: handler_def method_not_allowed_def)
next
  assume a: "status_code (fst (handler rt env fetch req)) \<noteq> 200"
  then show "req_method req \<noteq> ''POST''"
    using handler_post_reply by blast
  then show "status_code (fst (handler rt env fetch req)) = 405"
    by (simp add: handler_def method_not_allowed_def)
qed

text \<open>A 503 on the first candidate is answered 200 with the error stub; a GET is answered 405.\<close>

theorem post_always_answers_200_witness:
  "req_method sample_request = ''POST''
   \<and> handler sample_rt sample_env (always unavailable) sample_request =
       (\<lparr>status_code = 200,
         payload = JObj [(''text'', JStr stub_on_error), (''provider'', JStr ''stub-error'')]\<rparr>,
        [candidate_url sample_rt ''key'' (''v1beta'', ''gemini-2.0-flash'')])
   \<and> handler sample_rt sample_env (always unavailable) (sample_request\<lparr>req_method := ''GET''\<rparr>) =
       (\<lparr>status_code = 405, payload = JObj [(''error'', JStr ''Method not allowed'')]\<rparr>, [])"
proof -
  let ?p = "projr (request_prompt sample_rt sample_request)"
  have post: "req_method sample_request = ''POST''"
    by (simp add: sample_request_def)
  have get: "req_method (sample_request\<lparr>req_method := ''GET''\<rparr>) \<noteq> ''POST''"
    by simp
  have "req_method sample_request = ''POST'' \<and> GEMINI_API_KEY sample_env = Some ''key'' \<and> ''key'' \<noteq> [] \<and>
         request_prompt sample_rt sample_request = Inr ?p \<and>
         candidates sample_env = [] @ (''v1beta'', ''gemini-2.0-flash'') # tl (candidates sample_env) \<and>
         (\<forall>x \<in> set []. client_failure sample_rt (always unavailable) ''key'' ?p x) \<and>
         always unavailable (candidate_url sample_rt ''key'' (''v1beta'', ''gemini-2.0-flash''))
           (request_body sample_rt ?p) = Inr unavailable \<and>
         \<not> r_ok unavailable \<and> r_text unavailable = Inr ''overloaded'' \<and> r_status unavailable \<ge> 500"
    using sample_key(3) by (simp add: post sample_key(1,2) sample_candidates always_def unavailable_def)
  then have "handler sample_rt sample_env (always unavailable) sample_request =
       (\<lparr>status_code = 200,
         payload = JObj [(''text'', JStr stub_on_error), (''provider'', JStr ''stub-error'')]\<rparr>,
        map (candidate_url sample_rt ''key'') ([] @ [(''v1beta'', ''gemini-2.0-flash'')]))"
    using post_always_answers_200 [of sample_request sample_rt sample_env "always unavailable"]
    by blast
  moreover have "handler sample_rt sample_env (always unavailable) (sample_request\<lparr>req_method := ''GET''\<rparr>) =
       (\<lparr>status_code = 405, payload = JObj [(''error'', JStr ''Method not allowed'')]\<rparr>, [])"
    using post_always_answers_200 [of "sample_request\<lparr>req_method := ''GET''\<rparr>" sample_rt sample_env "always unavailable"] get
    by blast
  ultimately show ?thesis using post by simp
qed

section \<open>Properties of the component\<close>

subsection \<open>Paths of an action\<close>

lemma emit_simps [simp]:
  "trace (emit e w) = trace w @ [e]" "ui (emit e w) = ui w"
  by (simp_all add: emit_def)

lemma set_result_simps [simp]:
  "trace (set_result t g w) = trace w"
  "advice (ui (set_result t g w)) = t"
  "provider (ui (set_result t g w)) = g"
  "aiStatus (ui (set_result t g w)) = aiStatus (ui w)"
  "language (ui (set_result t g w)) = language (ui w)"
  "loading (ui (set_result t g w)) = loading (ui w)"
  by (simp_all add: set_result_def)

lemma count_simps [simp]:
  "readiness_queries [] = 0"
  "readiness_queries (es @ fs) = readiness_queries es + readiness_queries fs"
  "readiness_queries (e # es) = (if e = ReadinessQuery then 1 else 0) + readiness_queries es"
  "remote_calls [] = 0"
  "remote_calls (es @ fs) = remote_calls es + remote_calls fs"
  "remote_calls (e # es) = (case e of RemoteCall b \<Rightarrow> 1 | _ \<Rightarrow> 0) + remote_calls es"
  "session_creations [] = 0"
  "session_creations (es @ fs) = session_creations es + session_creations fs"
  "session_creations (e # es) = (case e of CreateSession b \<Rightarrow> 1 | _ \<Rightarrow> 0) + session_creations es"
  "prompt_calls [] = 0"
  "prompt_calls (es @ fs) = prompt_calls es + prompt_calls fs"
  "prompt_calls (e # es) = (case e of Prompt b \<Rightarrow> 1 | _ \<Rightarrow> 0) + prompt_calls es"
  by (simp_all add: readiness_queries_def remote_calls_def session_creations_def prompt_calls_def
      split: event.splits)

text \<open>The three ways the on-device path ends.\<close>

lemma on_device_cases:
  assumes "createTextSession ai = Some create"
  shows "on_device rt ai p mode w =
    (case create (session_opts mode) of
       Inl e \<Rightarrow> (Inl e, emit (CreateSession (session_opts mode)) w)
     | Inr session \<Rightarrow>
         (case buildContext rt p of
            Inl e \<Rightarrow> (Inl e, emit (CreateSession (session_opts mode)) w)
          | Inr ctx \<Rightarrow>
              (case session (local_prompt rt mode (language (ui w)) (advice (ui w)) ctx) of
                 Inl e \<Rightarrow> (Inl e, emit (Prompt (local_prompt rt mode (language (ui w)) (advice (ui w)) ctx))
                                    (emit (CreateSession (session_opts mode)) w))
               | Inr output \<Rightarrow>
                   (case js_String rt (js_or output (JStr [])) of
                      Inl e \<Rightarrow> (Inl e, emit (Prompt (local_prompt rt mode (language (ui w)) (advice (ui w)) ctx))
                                         (emit (CreateSession (session_opts mode)) w))
                    | Inr text \<Rightarrow>
                        (Inr (), set_result text (JStr ''on-device (Gemini Nano)'')
                           (emit (Prompt (local_prompt rt mode (language (ui w)) (advice (ui w)) ctx))
                              (emit (CreateSession (session_opts mode)) w)))))))"
  using assms by (simp add: on_device_def Let_def split: sum.splits)

lemma on_device_trace:
  "\<exists>es. trace (snd (on_device rt ai p mode w)) = trace w @ es \<and>
        readiness_queries es = 0 \<and> remote_calls es = 0 \<and> session_creations es \<le> 1 \<and> prompt_calls es \<le> 1"
proof (cases "createTextSession ai")
  case None
  then show ?thesis by (simp add: on_device_def)
next
  case (Some create)
  show ?thesis
    unfolding on_device_cases [OF Some]
    by (auto split: sum.splits)
qed

lemma on_device_status:
  "aiStatus (ui (snd (on_device rt ai p mode w))) = aiStatus (ui w)"
  by (auto simp: on_device_def Let_def split: option.splits sum.splits)

lemma server_fallback_trace:
  "\<exists>es. trace (snd (server_fallback rt b p mode w)) = trace w @ es \<and>
        readiness_queries es = 0 \<and> remote_calls es \<le> 1 \<and> session_creations es = 0 \<and> prompt_calls es = 0"
  by (auto simp: server_fallback_def Let_def split: sum.splits)

lemma server_fallback_one_call:
  assumes "buildContext rt p = Inr ctx"
  shows "trace (snd (server_fallback rt b p mode w)) = trace w @ [RemoteCall (remote_body rt mode w ctx)]"
  using assms by (auto simp: server_fallback_def Let_def split: sum.splits)

lemma server_fallback_status:
  "aiStatus (ui (snd (server_fallback rt b p mode w))) = aiStatus (ui w)"
  by (auto simp: server_fallback_def Let_def split: sum.splits)

lemma generate_try_paths:
  "generate_try rt b p mode w =
     (case readiness_answer b w of
        None \<Rightarrow> server_fallback rt b p mode w
      | Some (Inl e) \<Rightarrow> (Inl e, after_query b w)
      | Some (Inr can) \<Rightarrow>
          if can = JStr ''readily'' \<or> can = JStr ''after-download''
          then (case window_ai b of
                  None \<Rightarrow> server_fallback rt b p mode w
                | Some ai \<Rightarrow> on_device rt ai p mode (after_query b w))
          else server_fallback rt b p mode (after_query b w))"
  by (auto simp: generate_try_def readiness_answer_def readiness_fn_def after_query_def
      readiness_events_def supportsPromptAPI_def emit_def split: option.splits sum.splits)

lemma after_query_simps [simp]:
  "trace (after_query b w) = trace w @ readiness_events b"
  "ui (after_query b w) = ui w"
  by (simp_all add: after_query_def)

lemma readiness_events_count [simp]:
  "remote_calls (readiness_events b) = 0"
  "session_creations (readiness_events b) = 0"
  "prompt_calls (readiness_events b) = 0"
  "readiness_queries (readiness_events b) = length (readiness_events b)"
  by (simp_all add: readiness_events_def)

lemma enters_has_ai:
  assumes "enters_on_device b w"
  shows "\<exists>ai. window_ai b = Some ai \<and> createTextSession ai \<noteq> None"
  using assms
  by (auto simp: enters_on_device_def readiness_answer_def supportsPromptAPI_def
      split: if_splits option.splits)

lemma enters_events:
  assumes "enters_on_device b w"
  shows "readiness_events b = [ReadinessQuery]"
  using assms
  by (auto simp: enters_on_device_def readiness_answer_def readiness_events_def
      split: if_splits option.splits)

lemma generate_try_on_device:
  assumes "enters_on_device b w" "window_ai b = Some ai"
  shows "generate_try rt b p mode w = on_device rt ai p mode (after_query b w)"
  using assms
  by (auto simp: generate_try_paths enters_on_device_def)

lemma generate_try_skip:
  assumes "skips_on_device b w"
  shows "generate_try rt b p mode w = server_fallback rt b p mode (after_query b w)"
proof (cases "readiness_answer b w")
  case None
  then have "readiness_events b = []"
    by (auto simp: readiness_answer_def readiness_events_def split: if_splits option.splits)
  then have "after_query b w = w" by (simp add: after_query_def)
  then show ?thesis using None by (simp add: generate_try_paths)
next
  case (Some a)
  then show ?thesis using assms
    by (auto simp: generate_try_paths skips_on_device_def split: sum.splits)
qed

lemma generate_try_trace:
  "\<exists>es. trace (snd (generate_try rt b p mode w)) = trace w @ readiness_events b @ es \<and>
        readiness_queries es = 0 \<and> remote_calls es \<le> 1 \<and> session_creations es \<le> 1 \<and> prompt_calls es \<le> 1"
proof -
  have sf: "\<exists>es. trace (snd (server_fallback rt b p mode (after_query b w))) = trace w @ readiness_events b @ es \<and>
        readiness_queries es = 0 \<and> remote_calls es \<le> 1 \<and> session_creations es \<le> 1 \<and> prompt_calls es \<le> 1"
    using server_fallback_trace [of rt b p mode "after_query b w"] by auto
  have od: "\<exists>es. trace (snd (on_device rt ai p mode (after_query b w))) = trace w @ readiness_events b @ es \<and>
        readiness_queries es = 0 \<and> remote_calls es \<le> 1 \<and> session_creations es \<le> 1 \<and> prompt_calls es \<le> 1" for ai
    using on_device_trace [of rt ai p mode "after_query b w"] by auto
  have none: "readiness_answer b w = None \<Longrightarrow> after_query b w = w"
    by (auto simp: readiness_answer_def readiness_events_def after_query_def split: if_splits option.splits)
  have noai: "window_ai b = None \<Longrightarrow> after_query b w = w"
    by (auto simp: readiness_events_def after_query_def supportsPromptAPI_def)
  show ?thesis
  proof (cases "readiness_answer b w")
    case None
    then show ?thesis using sf none by (simp add: generate_try_paths)
  next
    case (Some a)
    show ?thesis
    proof (cases a)
      case (Inl e)
      then show ?thesis using Some by (simp add: generate_try_paths)
    next
      case (Inr can)
      show ?thesis
      proof (cases "window_ai b")
        case None
        then show ?thesis using Some Inr sf noai by (simp add: generate_try_paths)
      next
        case (Some ai)
        then show ?thesis using \<open>readiness_answer b w = Some a\<close> Inr sf od [of ai]
          by (simp add: generate_try_paths)
      qed
    qed
  qed
qed

lemma generate_try_status:
  "aiStatus (ui (snd (generate_try rt b p mode w))) = aiStatus (ui w)"
  by (auto simp: generate_try_paths on_device_status server_fallback_status
      split: option.splits sum.splits)

lemma generate_result:
  "generate rt b p mode w =
     (case generate_try rt b p mode (w\<lparr>ui := (ui w)\<lparr>loading := True\<rparr>\<rparr>) of
        (Inr u, w1) \<Rightarrow> w1\<lparr>ui := (ui w1)\<lparr>loading := False\<rparr>\<rparr>
      | (Inl err, w1) \<Rightarrow> (set_result unable_text (JStr ''error'') w1)
                            \<lparr>ui := (ui (set_result unable_text (JStr ''error'') w1))\<lparr>loading := False\<rparr>\<rparr>)"
  by (simp add: generate_def Let_def split: prod.splits sum.splits)

lemma generate_trace:
  "trace (generate rt b p mode w) = trace (snd (generate_try rt b p mode (w\<lparr>ui := (ui w)\<lparr>loading := True\<rparr>\<rparr>)))"
  by (simp add: generate_result split: prod.splits sum.splits)

lemma generate_status:
  "aiStatus (ui (generate rt b p mode w)) = aiStatus (ui w)"
proof -
  have "aiStatus (ui (generate rt b p mode w)) =
      aiStatus (ui (snd (generate_try rt b p mode (w\<lparr>ui := (ui w)\<lparr>loading := True\<rparr>\<rparr>))))"
    by (simp add: generate_result split: prod.splits sum.splits)
  then show ?thesis by (simp add: generate_try_status)
qed

lemma generate_readiness:
  "readiness_queries (trace (generate rt b p mode w)) =
     readiness_queries (trace w) + length (readiness_events b)"
proof -
  obtain es where "trace (snd (generate_try rt b p mode (w\<lparr>ui := (ui w)\<lparr>loading := True\<rparr>\<rparr>))) =
      trace (w\<lparr>ui := (ui w)\<lparr>loading := True\<rparr>\<rparr>) @ readiness_events b @ es" "readiness_queries es = 0"
    using generate_try_trace [of rt b p mode "w\<lparr>ui := (ui w)\<lparr>loading := True\<rparr>\<rparr>"] by blast
  then show ?thesis by (simp add: generate_trace)
qed

lemma readiness_answer_ui [simp]:
  "readiness_answer b (w\<lparr>ui := u\<rparr>) = readiness_answer b w"
  by (simp add: readiness_answer_def split: option.splits)

lemma generate_on_device_success:
  assumes "enters_on_device b w" "window_ai b = Some ai" "createTextSession ai = Some create"
    "create (session_opts mode) = Inr session" "buildContext rt p = Inr ctx"
    "session (local_prompt rt mode (language (ui w)) (advice (ui w)) ctx) = Inr output"
    "js_String rt (js_or output (JStr [])) = Inr text"
  shows "advice (ui (generate rt b p mode w)) = text"
    and "provider (ui (generate rt b p mode w)) = JStr ''on-device (Gemini Nano)''"
    and "loading (ui (generate rt b p mode w)) = False"
    and "trace (generate rt b p mode w) =
           trace w @ [ReadinessQuery, CreateSession (session_opts mode),
                      Prompt (local_prompt rt mode (language (ui w)) (advice (ui w)) ctx)]"
proof -
  let ?w0 = "w\<lparr>ui := (ui w)\<lparr>loading := True\<rparr>\<rparr>"
  have e: "enters_on_device b ?w0"
    using assms(1) by (simp add: enters_on_device_def)
  have t: "generate_try rt b p mode ?w0 =
      (Inr (), set_result text (JStr ''on-device (Gemini Nano)'')
                 (emit (Prompt (local_prompt rt mode (language (ui w)) (advice (ui w)) ctx))
                    (emit (CreateSession (session_opts mode)) (after_query b ?w0))))"
    using assms(4-7)
    by (simp add: generate_try_on_device [OF e assms(2)] on_device_cases [OF assms(3)])
  show "advice (ui (generate rt b p mode w)) = text"
    and "provider (ui (generate rt b p mode w)) = JStr ''on-device (Gemini Nano)''"
    and "loading (ui (generate rt b p mode w)) = False"
    and "trace (generate rt b p mode w) =
           trace w @ [ReadinessQuery, CreateSession (session_opts mode),
                      Prompt (local_prompt rt mode (language (ui w)) (advice (ui w)) ctx)]"
    using enters_events [OF assms(1)]
    by (simp_all add: generate_result t)
qed

lemma generate_on_device_trace:
  assumes "enters_on_device b w" "window_ai b = Some ai" "createTextSession ai = Some create"
    "create (session_opts mode) = Inr session" "buildContext rt p = Inr ctx"
    "session (local_prompt rt mode (language (ui w)) (advice (ui w)) ctx) = Inr output"
  shows "loading (ui (generate rt b p mode w)) = False"
    and "trace (generate rt b p mode w) =
           trace w @ [ReadinessQuery, CreateSession (session_opts mode),
                      Prompt (local_prompt rt mode (language (ui w)) (advice (ui w)) ctx)]"
proof -
  let ?w0 = "w\<lparr>ui := (ui w)\<lparr>loading := True\<rparr>\<rparr>"
  have e: "enters_on_device b ?w0"
    using assms(1) by (simp add: enters_on_device_def)
  have t: "trace (snd (generate_try rt b p mode ?w0)) =
      trace w @ [ReadinessQuery, CreateSession (session_opts mode),
                 Prompt (local_prompt rt mode (language (ui w)) (advice (ui w)) ctx)]"
    using assms(4-6) enters_events [OF assms(1)]
    by (simp add: generate_try_on_device [OF e assms(2)] on_device_cases [OF assms(3)]
        split: sum.splits)
  show "loading (ui (generate rt b p mode w)) = False"
    by (simp add: generate_result split: prod.splits sum.splits)
  show "trace (generate rt b p mode w) =
           trace w @ [ReadinessQuery, CreateSession (session_opts mode),
                      Prompt (local_prompt rt mode (language (ui w)) (advice (ui w)) ctx)]"
    using t by (simp add: generate_trace)
qed

lemma generate_skip:
  assumes "skips_on_device b w" "buildContext rt p = Inr ctx"
  shows "trace (generate rt b p mode w) =
           trace w @ readiness_events b @ [RemoteCall (remote_body rt mode w ctx)]"
    and "loading (ui (generate rt b p mode w)) = False"
proof -
  let ?w0 = "w\<lparr>ui := (ui w)\<lparr>loading := True\<rparr>\<rparr>"
  have s: "skips_on_device b ?w0"
    using assms(1) by (simp add: skips_on_device_def)
  have body: "remote_body rt mode (after_query b ?w0) ctx = remote_body rt mode w ctx"
    by (simp add: remote_body_def)
  show "trace (generate rt b p mode w) =
           trace w @ readiness_events b @ [RemoteCall (remote_body rt mode w ctx)]"
    using server_fallback_one_call [OF assms(2), of b mode "after_query b ?w0"]
    by (simp add: generate_trace generate_try_skip [OF s] body)
  show "loading (ui (generate rt b p mode w)) = False"
    by (simp add: generate_result split: prod.splits sum.splits)
qed

lemma generate_skip_result:
  assumes "skips_on_device b w" "buildContext rt p = Inr ctx"
    "fetch_advice b (remote_body rt mode w ctx) = Inr r" "r_ok r" "r_json r = Inr j" "\<not> nullish j"
    "js_String rt (js_or (get_prop j ''text'') (JStr [])) = Inr text"
  shows "advice (ui (generate rt b p mode w)) = text"
    and "provider (ui (generate rt b p mode w)) = js_or (get_prop j ''provider'') (JStr ''server'')"
proof -
  let ?w0 = "w\<lparr>ui := (ui w)\<lparr>loading := True\<rparr>\<rparr>"
  have s: "skips_on_device b ?w0"
    using assms(1) by (simp add: skips_on_device_def)
  have body: "remote_body rt mode (after_query b ?w0) ctx = remote_body rt mode w ctx"
    by (simp add: remote_body_def)
  have t: "generate_try rt b p mode ?w0 =
      (Inr (), set_result text
                 (js_or (get_prop j ''provider'') (JStr ''server''))
                 (emit (RemoteCall (remote_body rt mode w ctx)) (after_query b ?w0)))"
    using assms(2-7)
    by (simp add: generate_try_skip [OF s] server_fallback_def body Let_def)
  show "advice (ui (generate rt b p mode w)) = text"
    and "provider (ui (generate rt b p mode w)) = js_or (get_prop j ''provider'') (JStr ''server'')"
    by (simp_all add: generate_result t)
qed

lemma generate_counts:
  "session_creations (trace (generate rt b p mode w)) \<le> session_creations (trace w) + 1"
  "prompt_calls (trace (generate rt b p mode w)) \<le> prompt_calls (trace w) + 1"
  "remote_calls (trace (generate rt b p mode w)) \<le> remote_calls (trace w) + 1"
proof -
  obtain es where es: "trace (snd (generate_try rt b p mode (w\<lparr>ui := (ui w)\<lparr>loading := True\<rparr>\<rparr>))) =
      trace (w\<lparr>ui := (ui w)\<lparr>loading := True\<rparr>\<rparr>) @ readiness_events b @ es"
      "remote_calls es \<le> 1" "session_creations es \<le> 1" "prompt_calls es \<le> 1"
    using generate_try_trace [of rt b p mode "w\<lparr>ui := (ui w)\<lparr>loading := True\<rparr>\<rparr>"] by blast
  show "session_creations (trace (generate rt b p mode w)) \<le> session_creations (trace w) + 1"
    using es by (simp add: generate_trace)
  show "prompt_calls (trace (generate rt b p mode w)) \<le> prompt_calls (trace w) + 1"
    using es by (simp add: generate_trace)
  show "remote_calls (trace (generate rt b p mode w)) \<le> remote_calls (trace w) + 1"
    using es by (simp add: generate_trace)
qed

lemma generate_caught:
  assumes "generate_try rt b p mode (w\<lparr>ui := (ui w)\<lparr>loading := True\<rparr>\<rparr>) = (Inl e, w1)"
  shows "advice (ui (generate rt b p mode w)) = unable_text"
    and "provider (ui (generate rt b p mode w)) = JStr ''error''"
  using assms by (simp_all add: generate_result)

lemma with_status_on_device:
  "on_device rt ai p mode (with_status s w) =
     (fst (on_device rt ai p mode w), with_status s (snd (on_device rt ai p mode w)))"
  by (auto simp: on_device_def with_status_def emit_def set_result_def Let_def
      split: option.splits sum.splits)

lemma with_status_server_fallback:
  "server_fallback rt b p mode (with_status s w) =
     (fst (server_fallback rt b p mode w), with_status s (snd (server_fallback rt b p mode w)))"
  by (auto simp: server_fallback_def with_status_def emit_def set_result_def remote_body_def Let_def
      split: option.splits sum.splits)

lemma with_status_generate_try:
  "generate_try rt b p mode (with_status s w) =
     (fst (generate_try rt b p mode w), with_status s (snd (generate_try rt b p mode w)))"
proof -
  have e: "emit ReadinessQuery (with_status s w) = with_status s (emit ReadinessQuery w)"
    by (simp add: with_status_def emit_def)
  have t: "trace (with_status s w) = trace w"
    by (simp add: with_status_def)
  show ?thesis
    by (auto simp: generate_try_def e t with_status_on_device with_status_server_fallback
        split: option.splits sum.splits)
qed

lemma with_status_generate:
  "generate rt b p mode (with_status s w) = with_status s (generate rt b p mode w)"
proof -
  have l: "(with_status s w)\<lparr>ui := (ui (with_status s w))\<lparr>loading := True\<rparr>\<rparr> =
      with_status s (w\<lparr>ui := (ui w)\<lparr>loading := True\<rparr>\<rparr>)"
    by (simp add: with_status_def)
  show ?thesis
    unfolding generate_result l with_status_generate_try
    by (auto simp: with_status_def set_result_def split: prod.splits sum.splits)
qed

subsection \<open>Outcomes of an action and of a session\<close>

lemma ready_browser_facts:
  "supportsPromptAPI (ready_browser out)"
  "window_ai (ready_browser out) = Some (ready_ai out)"
  "readiness_fn (ready_browser out) = Some (\<lambda>n. Inr (JStr ''readily''))"
  "createTextSession (ready_ai out) = Some (\<lambda>opts. Inr (\<lambda>prompt. out))"
  "readiness_events (ready_browser out) = [ReadinessQuery]"
  "enters_on_device (ready_browser out) w"
  "has_window (ready_browser out)"
  by (simp_all add: ready_browser_def ready_ai_def supportsPromptAPI_def readiness_fn_def
      readiness_events_def enters_on_device_def readiness_answer_def)

lemma plain_browser_facts:
  "\<not> supportsPromptAPI plain_browser"
  "window_ai plain_browser = None"
  "readiness_fn plain_browser = None"
  "readiness_events plain_browser = []"
  "skips_on_device plain_browser w"
  "has_window plain_browser"
  by (simp_all add: plain_browser_def supportsPromptAPI_def readiness_fn_def
      readiness_events_def skips_on_device_def readiness_answer_def)

lemma sample_context:
  "buildContext sample_rt sample_props =
     Inr (JObj [(''flight'', JObj [(''origin'', JStr ''LAX''), (''destination'', JStr ''JFK''),
                                  (''date'', JStr ''2025-01-15''), (''departureTime'', JStr ''10:00''),
                                  (''arrivalTime'', JStr ''18:30'')]),
                (''weather'', JObj [(''origin'', JNull), (''destination'', JNull)]),
                (''prediction'', JNull)])"
  by (simp add: buildContext_def sample_props_def js_or_def)

lemma mount_ready:
  "trace (mount (ready_browser out)) = [ReadinessQuery]"
  "aiStatus (ui (mount (ready_browser out))) = JStr ''readily''"
  "advice (ui (mount (ready_browser out))) = []"
  "language (ui (mount (ready_browser out))) = ''en''"
  by (simp_all add: mount_def checkAI_def initial_world_def ready_browser_def ready_ai_def Let_def)

lemma mount_plain:
  "trace (mount plain_browser) = []"
  "aiStatus (ui (mount plain_browser)) = JStr ''unavailable''"
  "advice (ui (mount plain_browser)) = []"
  "language (ui (mount plain_browser)) = ''en''"
  by (simp_all add: mount_def checkAI_def initial_world_def plain_browser_def)

text \<open>
  Claim C1 says an on-device attempt that yields empty output falls through to the server
  route, with exactly one delegation call. It does not: with the facility ready and a
  session that answers the empty string, the action settles on the on-device branch with an
  empty advisory, and no remote call is made.
\<close>
theorem empty_on_device_output_settles_without_remote:
  "advice (ui (generate sample_rt (ready_browser (Inr (JStr []))) sample_props ''advice''
                 (mount (ready_browser (Inr (JStr [])))))) = []
   \<and> provider (ui (generate sample_rt (ready_browser (Inr (JStr []))) sample_props ''advice''
                     (mount (ready_browser (Inr (JStr [])))))) = JStr ''on-device (Gemini Nano)''
   \<and> remote_calls (trace (generate sample_rt (ready_browser (Inr (JStr []))) sample_props ''advice''
                            (mount (ready_browser (Inr (JStr [])))))) = 0"
proof -
  let ?b = "ready_browser (Inr (JStr []))"
  have s: "(\<lambda>prompt. Inr (JStr [])) (local_prompt sample_rt ''advice'' (language (ui (mount ?b)))
      (advice (ui (mount ?b))) (projr (buildContext sample_rt sample_props))) = Inr (JStr [])"
    by simp
  have c: "(\<lambda>opts. Inr (\<lambda>prompt. Inr (JStr []))) (session_opts ''advice'') = Inr (\<lambda>prompt. Inr (JStr []))"
    by simp
  have ctx: "buildContext sample_rt sample_props = Inr (projr (buildContext sample_rt sample_props))"
    by (simp add: sample_context)
  have js: "js_String sample_rt (js_or (JStr []) (JStr [])) = Inr []"
    by (simp add: js_or_def)
  note g = generate_on_device_success [where w = "mount ?b", OF ready_browser_facts(6)
      ready_browser_facts(2) ready_browser_facts(4) c ctx s js]
  show ?thesis
    by (simp add: g mount_ready)
qed

text \<open>
  Claim C2 says no exit path surfaces an empty advisory text. Two do: an on-device session
  whose output is undefined leaves the empty string in \<^verbatim>\<open>advice\<close>, and a provider answer
  from which no text can be extracted makes the route reply 200 with the empty string as
  text.
\<close>
theorem undefined_output_gives_empty_advisory:
  "advice (ui (generate sample_rt (ready_browser (Inr JUndefined)) sample_props ''advice''
                 (mount (ready_browser (Inr JUndefined))))) = []
   \<and> status_code (fst (handler sample_rt sample_env (always ok_without_text) sample_request)) = 200
   \<and> get_prop (payload (fst (handler sample_rt sample_env (always ok_without_text) sample_request))) ''text''
       = JStr []"
proof -
  let ?b = "ready_browser (Inr JUndefined)"
  let ?p = "projr (request_prompt sample_rt sample_request)"
  have s: "(\<lambda>prompt. Inr JUndefined) (local_prompt sample_rt ''advice'' (language (ui (mount ?b)))
      (advice (ui (mount ?b))) (projr (buildContext sample_rt sample_props))) = Inr JUndefined"
    by simp
  have c: "(\<lambda>opts. Inr (\<lambda>prompt. Inr JUndefined)) (session_opts ''advice'') = Inr (\<lambda>prompt. Inr JUndefined)"
    by simp
  have ctx: "buildContext sample_rt sample_props = Inr (projr (buildContext sample_rt sample_props))"
    by (simp add: sample_context)
  have js: "js_String sample_rt (js_or JUndefined (JStr [])) = Inr []"
    by (simp add: js_or_def)
  note g = generate_on_device_success(1) [where w = "mount ?b", OF ready_browser_facts(6)
      ready_browser_facts(2) ready_browser_facts(4) c ctx s js]
  have x: "extract_text (JObj [(''candidates'', JArr [])]) = JUndefined"
    by (simp add: extract_text_def opt_prop_def opt_idx0_def nullish_def)
  have split: "candidates sample_env = [] @ (''v1beta'', ''gemini-2.0-flash'') # tl (candidates sample_env)"
    by (simp add: sample_candidates)
  have pre: "\<forall>x \<in> set []. client_failure sample_rt (always ok_without_text) ''key'' ?p x"
    by simp
  have resp: "always ok_without_text (candidate_url sample_rt ''key'' (''v1beta'', ''gemini-2.0-flash''))
      (request_body sample_rt ?p) = Inr ok_without_text"
    by (simp add: always_def)
  have r: "r_ok ok_without_text" "r_json ok_without_text = Inr (JObj [(''candidates'', JArr [])])"
    by (simp_all add: ok_without_text_def)
  have post: "req_method sample_request = ''POST''"
    by (simp add: sample_request_def)
  have h: "fst (handler sample_rt sample_env (always ok_without_text) sample_request) =
      success_reply ''v1beta'' ''gemini-2.0-flash'' (JObj [(''candidates'', JArr [])])"
    using handler_try_success [OF sample_key split pre resp r]
    by (simp add: handler_post [OF post])
  show ?thesis
    by (simp add: g h x success_reply_def js_or_def)
qed

text \<open>
  Claim C8 says readiness is probed once per session and no later action probes again.
  With the Prompt API present every click queries \<^verbatim>\<open>canCreateTextSession\<close> again: one query
  after the mount, three after two clicks.
\<close>
theorem every_click_queries_readiness_again:
  "readiness_queries (trace (mount (ready_browser (Inr (JStr ''Pack an umbrella.''))))) = 1
   \<and> readiness_queries (trace (run sample_rt (ready_browser (Inr (JStr ''Pack an umbrella.''))) sample_props
        [Click ''advice'', Click ''translate''] (mount (ready_browser (Inr (JStr ''Pack an umbrella.'')))))) = 3"
  by (simp add: generate_readiness ready_browser_facts mount_ready)

text \<open>
  Claim C1, amended. An action whose own readiness query answers \<^verbatim>\<open>readily\<close> or
  \<^verbatim>\<open>after-download\<close> takes the on-device branch; when the session opens and \<^verbatim>\<open>prompt()\<close>
  resolves, with empty or undefined output too, the action makes one readiness query, one
  session creation and one prompt, and no remote call; it settles there with text
  \<^verbatim>\<open>String(output || '')\<close>, once that conversion has given a string, and the on-device
  provider tag. An action that does not take
  the on-device branch (Prompt API unsupported, or another readiness answer) issues exactly
  one remote delegation call and, when that call succeeds, settles with its text and
  provider. No action creates more than one session, prompts more than once, or delegates
  more than once.
\<close>
theorem on_device_once_else_remote_once:
  "(\<forall>ai create session ctx answer.
      enters_on_device b w \<and> window_ai b = Some ai \<and> createTextSession ai = Some create \<and>
      create (session_opts mode) = Inr session \<and> buildContext rt p = Inr ctx \<and>
      session (local_prompt rt mode (language (ui w)) (advice (ui w)) ctx) = Inr answer \<longrightarrow>
      (\<forall>text. js_String rt (js_or answer (JStr [])) = Inr text \<longrightarrow>
         advice (ui (generate rt b p mode w)) = text \<and>
         provider (ui (generate rt b p mode w)) = JStr ''on-device (Gemini Nano)'') \<and>
      loading (ui (generate rt b p mode w)) = False \<and>
      trace (generate rt b p mode w) =
        trace w @ [ReadinessQuery, CreateSession (session_opts mode),
                   Prompt (local_prompt rt mode (language (ui w)) (advice (ui w)) ctx)])
   \<and> (\<forall>ctx. skips_on_device b w \<and> buildContext rt p = Inr ctx \<longrightarrow>
         trace (generate rt b p mode w) =
           trace w @ readiness_events b @ [RemoteCall (remote_body rt mode w ctx)] \<and>
         loading (ui (generate rt b p mode w)) = False \<and>
         (\<forall>r j text. fetch_advice b (remote_body rt mode w ctx) = Inr r \<and> r_ok r \<and> r_json r = Inr j \<and>
                \<not> nullish j \<and> js_String rt (js_or (get_prop j ''text'') (JStr [])) = Inr text \<longrightarrow>
                advice (ui (generate rt b p mode w)) = text \<and>
                provider (ui (generate rt b p mode w)) = js_or (get_prop j ''provider'') (JStr ''server'')))
   \<and> session_creations (trace (generate rt b p mode w)) \<le> session_creations (trace w) + 1
   \<and> prompt_calls (trace (generate rt b p mode w)) \<le> prompt_calls (trace w) + 1
   \<and> remote_calls (trace (generate rt b p mode w)) \<le> remote_calls (trace w) + 1"
proof -
  have a1: "advice (ui (generate rt b p mode w)) = tx \<and>
      provider (ui (generate rt b p mode w)) = JStr ''on-device (Gemini Nano)''"
    if "enters_on_device b w \<and> window_ai b = Some ai \<and> createTextSession ai = Some create \<and>
      create (session_opts mode) = Inr session \<and> buildContext rt p = Inr ctx \<and>
      session (local_prompt rt mode (language (ui w)) (advice (ui w)) ctx) = Inr answer"
      "js_String rt (js_or answer (JStr [])) = Inr tx"
    for ai create session ctx answer tx
    using that generate_on_device_success [of b w ai create mode session rt p ctx answer tx] by blast
  have a2: "loading (ui (generate rt b p mode w)) = False \<and>
      trace (generate rt b p mode w) =
        trace w @ [ReadinessQuery, CreateSession (session_opts mode),
                   Prompt (local_prompt rt mode (language (ui w)) (advice (ui w)) ctx)]"
    if "enters_on_device b w \<and> window_ai b = Some ai \<and> createTextSession ai = Some create \<and>
      create (session_opts mode) = Inr session \<and> buildContext rt p = Inr ctx \<and>
      session (local_prompt rt mode (language (ui w)) (advice (ui w)) ctx) = Inr answer"
    for ai create session ctx answer
    using that generate_on_device_trace [of b w ai create mode session rt p ctx answer] by blast
  have s1: "trace (generate rt b p mode w) =
           trace w @ readiness_events b @ [RemoteCall (remote_body rt mode w ctx)] \<and>
         loading (ui (generate rt b p mode w)) = False"
    if "skips_on_device b w \<and> buildContext rt p = Inr ctx" for ctx
    using that generate_skip [of b w rt p ctx mode] by blast
  have s2: "advice (ui (generate rt b p mode w)) = tx \<and>
                provider (ui (generate rt b p mode w)) = js_or (get_prop j ''provider'') (JStr ''server'')"
    if "skips_on_device b w \<and> buildContext rt p = Inr ctx"
      "fetch_advice b (remote_body rt mode w ctx) = Inr r \<and> r_ok r \<and> r_json r = Inr j \<and> \<not> nullish j \<and>
       js_String rt (js_or (get_prop j ''text'') (JStr [])) = Inr tx"
    for ctx r j tx
    using that generate_skip_result [of b w rt p ctx mode r j tx] by blast
  show ?thesis
    using a1 a2 s1 s2 generate_counts [of rt b p mode w] by blast
qed

text \<open>A ready facility answers on the device with no remote call; a browser without the facility delegates once and shows the stub.\<close>

theorem on_device_once_else_remote_once_witness:
  "advice (ui (generate sample_rt (ready_browser (Inr (JStr ''Pack an umbrella.''))) sample_props ''advice''
                 (mount (ready_browser (Inr (JStr ''Pack an umbrella.'')))))) = ''Pack an umbrella.''
   \<and> provider (ui (generate sample_rt (ready_browser (Inr (JStr ''Pack an umbrella.''))) sample_props ''advice''
                 (mount (ready_browser (Inr (JStr ''Pack an umbrella.'')))))) = JStr ''on-device (Gemini Nano)''
   \<and> remote_calls (trace (generate sample_rt (ready_browser (Inr (JStr ''Pack an umbrella.''))) sample_props ''advice''
                 (mount (ready_browser (Inr (JStr ''Pack an umbrella.'')))))) = 0
   \<and> remote_calls (trace (generate sample_rt plain_browser sample_props ''advice'' (mount plain_browser))) = 1
   \<and> advice (ui (generate sample_rt plain_browser sample_props ''advice'' (mount plain_browser))) = stub_no_key
   \<and> provider (ui (generate sample_rt plain_browser sample_props ''advice'' (mount plain_browser))) = JStr ''stub''"
proof -
  let ?out = "Inr (JStr ''Pack an umbrella.'') :: exn + js"
  let ?b = "ready_browser ?out"
  let ?ctx = "projr (buildContext sample_rt sample_props)"
  have ctx: "buildContext sample_rt sample_props = Inr ?ctx"
    by (simp add: sample_context)
  have prem: "enters_on_device ?b (mount ?b) \<and> window_ai ?b = Some (ready_ai ?out) \<and>
      createTextSession (ready_ai ?out) = Some (\<lambda>opts. Inr (\<lambda>prompt. ?out)) \<and>
      (\<lambda>opts. Inr (\<lambda>prompt. ?out)) (session_opts ''advice'') = Inr (\<lambda>prompt. ?out) \<and>
      buildContext sample_rt sample_props = Inr ?ctx \<and>
      (\<lambda>prompt. ?out) (local_prompt sample_rt ''advice'' (language (ui (mount ?b))) (advice (ui (mount ?b))) ?ctx) = ?out"
    using ctx by (simp add: ready_browser_facts)
  have d1: "js_String sample_rt (js_or (JStr ''Pack an umbrella.'') (JStr [])) = Inr ''Pack an umbrella.''"
    by (simp add: js_or_def)
  note dev0 = on_device_once_else_remote_once [where b = ?b and w = "mount ?b" and mode = "''advice''"
      and rt = sample_rt and p = sample_props, THEN conjunct1, rule_format,
      of "ready_ai ?out" "\<lambda>opts. Inr (\<lambda>prompt. ?out)" "\<lambda>prompt. ?out" ?ctx "JStr ''Pack an umbrella.''", OF prem]
  note dev = dev0 [THEN conjunct1, rule_format, OF d1] dev0 [THEN conjunct2]
  let ?body = "remote_body sample_rt ''advice'' (mount plain_browser) ?ctx"
  let ?r = "\<lparr>r_ok = True, r_status = 200, r_json = Inr (payload stub_reply), r_text = Inr []\<rparr>"
  have skip: "skips_on_device plain_browser (mount plain_browser) \<and> buildContext sample_rt sample_props = Inr ?ctx"
    using plain_browser_facts(5) ctx by simp
  have resp: "fetch_advice plain_browser ?body = Inr ?r \<and> r_ok ?r \<and> r_json ?r = Inr (payload stub_reply) \<and>
      \<not> nullish (payload stub_reply) \<and>
      js_String sample_rt (js_or (get_prop (payload stub_reply) ''text'') (JStr [])) = Inr stub_no_key"
    using stub_no_key_nonempty
    by (simp add: plain_browser_def stub_server_def stub_reply_def nullish_def js_or_def)
  note rem0 = on_device_once_else_remote_once [where b = plain_browser and w = "mount plain_browser"
      and mode = "''advice''" and rt = sample_rt and p = sample_props, THEN conjunct2, THEN conjunct1,
      rule_format, of ?ctx, OF skip]
  note rem1 = rem0 [THEN conjunct1]
  note rem2 = rem0 [THEN conjunct2, THEN conjunct2, rule_format, of ?r "payload stub_reply" stub_no_key, OF resp]
  have st: "js_or (get_prop (payload stub_reply) ''provider'') (JStr ''server'') = JStr ''stub''"
    by (simp add: stub_reply_def js_or_def)
  show ?thesis
    using dev rem1 rem2
    by (simp add: st mount_ready mount_plain plain_browser_facts)
qed

lemma unable_text_nonempty: "unable_text \<noteq> []"
  by (simp add: unable_text_def)

lemma string_output_kept: "js_String rt (js_or (JStr s) (JStr [])) = Inr s"
  by (simp add: js_or_def)

text \<open>
  Claim C2, amended. The text is not empty on the three stub exits of the route (provider
  tags \<^verbatim>\<open>stub\<close>, \<^verbatim>\<open>stub-fallback\<close>, \<^verbatim>\<open>stub-error\<close>) and on the component's final fallback,
  which every exception of an action reaches. On the two remaining exits the text is what
  came from upstream: the session's output string on the on-device exit, the \<^verbatim>\<open>text\<close> string
  of the server's answer on the remote exit, empty exactly when that string is.
\<close>
theorem stub_and_fallback_texts_nonempty:
  "(req_method req = ''POST'' \<and>
      (get_prop (payload (fst (handler rt env fetch req))) ''provider'' = JStr ''stub'' \<or>
       get_prop (payload (fst (handler rt env fetch req))) ''provider'' = JStr ''stub-fallback'' \<or>
       get_prop (payload (fst (handler rt env fetch req))) ''provider'' = JStr ''stub-error'') \<longrightarrow>
      (\<exists>s. get_prop (payload (fst (handler rt env fetch req))) ''text'' = JStr s \<and> s \<noteq> []))
   \<and> (\<forall>e w1. generate_try rt b p mode (w\<lparr>ui := (ui w)\<lparr>loading := True\<rparr>\<rparr>) = (Inl e, w1) \<longrightarrow>
         advice (ui (generate rt b p mode w)) = unable_text \<and>
         provider (ui (generate rt b p mode w)) = JStr ''error'')
   \<and> unable_text \<noteq> []
   \<and> (\<forall>ai create session ctx s.
         enters_on_device b w \<and> window_ai b = Some ai \<and> createTextSession ai = Some create \<and>
         create (session_opts mode) = Inr session \<and> buildContext rt p = Inr ctx \<and>
         session (local_prompt rt mode (language (ui w)) (advice (ui w)) ctx) = Inr (JStr s) \<longrightarrow>
         advice (ui (generate rt b p mode w)) = s)
   \<and> (\<forall>ctx r j s.
         skips_on_device b w \<and> buildContext rt p = Inr ctx \<and>
         fetch_advice b (remote_body rt mode w ctx) = Inr r \<and> r_ok r \<and> r_json r = Inr j \<and>
         get_prop j ''text'' = JStr s \<longrightarrow>
         advice (ui (generate rt b p mode w)) = s)"
proof (intro conjI allI impI)
  assume a: "req_method req = ''POST'' \<and>
      (get_prop (payload (fst (handler rt env fetch req))) ''provider'' = JStr ''stub'' \<or>
       get_prop (payload (fst (handler rt env fetch req))) ''provider'' = JStr ''stub-fallback'' \<or>
       get_prop (payload (fst (handler rt env fetch req))) ''provider'' = JStr ''stub-error'')"
  then have post: "req_method req = ''POST''" by simp
  from handler_reply_cases [OF post, of rt env fetch]
  show "\<exists>s. get_prop (payload (fst (handler rt env fetch req))) ''text'' = JStr s \<and> s \<noteq> []"
  proof (elim disjE exE)
    assume "fst (handler rt env fetch req) = stub_reply"
    then show ?thesis by (simp add: stub_texts stub_no_key_nonempty)
  next
    assume "fst (handler rt env fetch req) = error_reply"
    then show ?thesis by (simp add: stub_texts stub_on_error_nonempty)
  next
    fix e assume "fst (handler rt env fetch req) = fallback_reply e"
    then show ?thesis by (simp add: stub_texts stub_unavailable_nonempty)
  next
    fix v m data assume "fst (handler rt env fetch req) = success_reply v m data"
    then show ?thesis using a success_provider_not_stub [of v m data] by simp
  qed
next
  fix e w1
  assume "generate_try rt b p mode (w\<lparr>ui := (ui w)\<lparr>loading := True\<rparr>\<rparr>) = (Inl e, w1)"
  then show "advice (ui (generate rt b p mode w)) = unable_text"
    and "provider (ui (generate rt b p mode w)) = JStr ''error''"
    by (rule generate_caught)+
next
  show "unable_text \<noteq> []" by (rule unable_text_nonempty)
next
  fix ai create session ctx s
  assume "enters_on_device b w \<and> window_ai b = Some ai \<and> createTextSession ai = Some create \<and>
         create (session_opts mode) = Inr session \<and> buildContext rt p = Inr ctx \<and>
         session (local_prompt rt mode (language (ui w)) (advice (ui w)) ctx) = Inr (JStr s)"
  then show "advice (ui (generate rt b p mode w)) = s"
    using generate_on_device_success(1) [of b w ai create mode session rt p ctx "JStr s" s]
      string_output_kept [of rt s] by blast
next
  fix ctx r j s
  assume a: "skips_on_device b w \<and> buildContext rt p = Inr ctx \<and>
         fetch_advice b (remote_body rt mode w ctx) = Inr r \<and> r_ok r \<and> r_json r = Inr j \<and>
         get_prop j ''text'' = JStr s"
  then have n: "\<not> nullish j" by (auto simp: nullish_def)
  have "js_String rt (js_or (get_prop j ''text'') (JStr [])) = Inr s"
    using a by (simp add: string_output_kept)
  then show "advice (ui (generate rt b p mode w)) = s"
    using a n generate_skip_result(1) [of b w rt p ctx mode r j s] by blast
qed

text \<open>The stub of the route without a key, and the final fallback after a rejected prompt.\<close>

theorem stub_and_fallback_texts_nonempty_witness:
  "get_prop (payload (fst (handler sample_rt (sample_env\<lparr>GEMINI_API_KEY := None\<rparr>) (always not_found) sample_request)))
     ''provider'' = JStr ''stub''
   \<and> (\<exists>s. get_prop (payload (fst (handler sample_rt (sample_env\<lparr>GEMINI_API_KEY := None\<rparr>) (always not_found) sample_request)))
          ''text'' = JStr s \<and> s \<noteq> [])
   \<and> advice (ui (generate sample_rt (ready_browser (Inl (Error ''session lost''))) sample_props ''advice''
                   (mount (ready_browser (Inl (Error ''session lost'')))))) = unable_text"
proof -
  let ?env = "sample_env\<lparr>GEMINI_API_KEY := None\<rparr>"
  let ?b = "ready_browser (Inl (Error ''session lost''))"
  let ?w0 = "(mount ?b)\<lparr>ui := (ui (mount ?b))\<lparr>loading := True\<rparr>\<rparr>"
  have post: "req_method sample_request = ''POST''"
    by (simp add: sample_request_def)
  have h: "handler sample_rt ?env (always not_found) sample_request = (stub_reply, [])"
    using handler_try_no_key [where env = ?env and fetch = "always not_found", OF _ sample_prompt]
    by (simp add: handler_post [OF post])
  have prov: "req_method sample_request = ''POST'' \<and>
      (get_prop (payload (fst (handler sample_rt ?env (always not_found) sample_request))) ''provider'' = JStr ''stub'' \<or>
       get_prop (payload (fst (handler sample_rt ?env (always not_found) sample_request))) ''provider'' = JStr ''stub-fallback'' \<or>
       get_prop (payload (fst (handler sample_rt ?env (always not_found) sample_request))) ''provider'' = JStr ''stub-error'')"
    by (simp add: post h stub_reply_def)
  note t = stub_and_fallback_texts_nonempty [where rt = sample_rt and env = ?env and fetch = "always not_found"
      and req = sample_request and b = ?b and p = sample_props and mode = "''advice''" and w = "mount ?b"]
  note t1 = t [THEN conjunct1, rule_format, OF prov]
  have e: "enters_on_device ?b ?w0"
    by (simp add: ready_browser_facts)
  have "generate_try sample_rt ?b sample_props ''advice'' ?w0 =
      (Inl (Error ''session lost''),
       emit (Prompt (local_prompt sample_rt ''advice'' (language (ui ?w0)) (advice (ui ?w0))
                       (projr (buildContext sample_rt sample_props))))
         (emit (CreateSession (session_opts ''advice'')) (after_query ?b ?w0)))"
    by (simp add: generate_try_on_device [OF e ready_browser_facts(2)]
        on_device_cases [OF ready_browser_facts(4)] sample_context)
  note t2 = t [THEN conjunct2, THEN conjunct1, rule_format, OF this]
  have pv: "get_prop (payload (fst (handler sample_rt ?env (always not_found) sample_request))) ''provider''
      = JStr ''stub''"
    by (simp add: h stub_reply_def)
  show ?thesis
    using t1 t2 pv by simp
qed

lemma mount_readiness:
  "readiness_queries (trace (mount b)) = (if has_window b \<and> readiness_fn b \<noteq> None then 1 else 0)"
  by (auto simp: mount_def checkAI_def initial_world_def readiness_fn_def Let_def
      split: option.splits sum.splits)

lemma mount_status:
  assumes "has_window b" "readiness_fn b = Some query" "query 0 = Inr status"
  shows "aiStatus (ui (mount b)) = status"
  using assms
  by (auto simp: mount_def checkAI_def initial_world_def readiness_fn_def Let_def emit_def
      split: option.splits sum.splits)

lemma clicks_simps [simp]:
  "clicks [] = 0"
  "clicks (Click m # as) = Suc (clicks as)"
  "clicks (SetLanguage l # as) = clicks as"
  by (simp_all add: clicks_def)

lemma run_readiness:
  "readiness_queries (trace (run rt b p as w)) =
     readiness_queries (trace w) + clicks as * length (readiness_events b)"
proof (induction as arbitrary: w)
  case Nil
  then show ?case by simp
next
  case (Cons a as)
  show ?case
  proof (cases a)
    case (Click m)
    then show ?thesis by (simp add: Cons.IH generate_readiness)
  next
    case (SetLanguage l)
    then show ?thesis by (simp add: Cons.IH)
  qed
qed

lemma run_status:
  "aiStatus (ui (run rt b p as w)) = aiStatus (ui w)"
proof (induction as arbitrary: w)
  case Nil
  then show ?case by simp
next
  case (Cons a as)
  show ?case
  proof (cases a)
    case (Click m)
    then show ?thesis by (simp add: Cons.IH generate_status)
  next
    case (SetLanguage l)
    then show ?thesis by (simp add: Cons.IH)
  qed
qed

lemma readiness_events_length:
  "length (readiness_events b) = (if supportsPromptAPI b \<and> readiness_fn b \<noteq> None then 1 else 0)"
  by (simp add: readiness_events_def)

text \<open>
  Claim C8, amended. The mount runs \<^verbatim>\<open>checkAI\<close> once, which queries readiness at most once and
  stores the answer, when there is one, in \<^verbatim>\<open>aiStatus\<close>. Every later click on a button queries readiness once
  more when the Prompt API is supported, and decides on that fresh answer: the stored
  \<^verbatim>\<open>aiStatus\<close> is never changed by an action and never read by one (an action started from
  a state with another \<^verbatim>\<open>aiStatus\<close> does the same and leaves that status in place).
\<close>
theorem readiness_queried_at_mount_and_by_every_click:
  "readiness_queries (trace (mount b)) = (if has_window b \<and> readiness_fn b \<noteq> None then 1 else 0)
   \<and> (\<forall>query status. has_window b \<and> readiness_fn b = Some query \<and> query 0 = Inr status \<longrightarrow>
         aiStatus (ui (mount b)) = status)
   \<and> readiness_queries (trace (run rt b p as (mount b))) =
       readiness_queries (trace (mount b)) +
       (if supportsPromptAPI b \<and> readiness_fn b \<noteq> None then clicks as else 0)
   \<and> aiStatus (ui (run rt b p as (mount b))) = aiStatus (ui (mount b))
   \<and> generate rt b p mode (with_status s w) = with_status s (generate rt b p mode w)"
  using mount_status [of b]
  by (auto simp: mount_readiness run_readiness run_status with_status_generate readiness_events_length)

text \<open>Two clicks and a language change after the mount: three queries, and the stored status is still that of the mount.\<close>

theorem readiness_queried_at_mount_and_by_every_click_witness:
  "readiness_queries (trace (run sample_rt (ready_browser (Inr (JStr ''Pack an umbrella.''))) sample_props
      [Click ''advice'', SetLanguage ''fr'', Click ''translate'']
      (mount (ready_browser (Inr (JStr ''Pack an umbrella.'')))))) = 3
   \<and> aiStatus (ui (run sample_rt (ready_browser (Inr (JStr ''Pack an umbrella.''))) sample_props
      [Click ''advice'', SetLanguage ''fr'', Click ''translate'']
      (mount (ready_browser (Inr (JStr ''Pack an umbrella.'')))))) = JStr ''readily''
   \<and> readiness_queries (trace (run sample_rt plain_browser sample_props [Click ''advice''] (mount plain_browser))) = 0"
  using readiness_queried_at_mount_and_by_every_click [of "ready_browser (Inr (JStr ''Pack an umbrella.''))"
      sample_rt sample_props "[Click ''advice'', SetLanguage ''fr'', Click ''translate'']"]
    readiness_queried_at_mount_and_by_every_click [of plain_browser sample_rt sample_props "[Click ''advice'']"]
  by (simp add: ready_browser_facts plain_browser_facts mount_ready)

subsection \<open>The prompt builders\<close>

lemma suffix_append2: "suffix a (x @ a)"
  by (rule suffixI) (rule refl)

lemma suffix_append4: "suffix a (x @ y @ z @ a)"
proof -
  have "x @ y @ z @ a = (x @ y @ z) @ a" by simp
  then show ?thesis by (rule suffixI)
qed

lemma build_prompt_translate:
  "build_prompt rt (JStr ''translate'') (JStr l) (JStr a) c =
     Inr (''Translate the following advisory to '' @ l @
          '' using clear, friendly travel English localized to the target language.\<newline>\<newline>'' @ a)"
  by (simp add: build_prompt_def)

lemma build_prompt_rewrite:
  "build_prompt rt (JStr ''rewrite'') (JStr l) (JStr a) c =
     Inr (''Rewrite the following advisory to be more concise while preserving all key recommendations. Limit to 120 words.\<newline>\<newline>'' @ a)"
  by (simp add: build_prompt_def)

lemma build_prompt_advice:
  "build_prompt rt (JStr ''advice'') l a c =
     Inr ((''You are a concise travel assistant integrated in a flight delay dashboard. Given the flight context, weather and predicted delays, generate a short actionable advisory for the traveler. Prefer bullet points. Avoid hedging. Never invent data. Keep to ~120-180 words. Include '' @
           ldquo @ ''What to do next'' @ rdquo @ '' with 2-3 steps.\<newline>\<newline>JSON Context:\<newline>'') @
          JSON_stringify2 rt c)"
  by (simp add: build_prompt_def)

lemma local_prompt_translate:
  "local_prompt rt ''translate'' l a c =
     ''Translate the following advisory to '' @ l @
     '' using clear, friendly travel English localized to the target language:\<newline>\<newline>'' @ a"
  by (simp add: local_prompt_def)

lemma local_prompt_rewrite:
  "local_prompt rt ''rewrite'' l a c =
     ''Rewrite the following advisory to be more concise while preserving all key recommendations. Limit to 120 words.\<newline>\<newline>'' @ a"
  by (simp add: local_prompt_def)

lemma local_prompt_advice:
  "local_prompt rt ''advice'' l a c =
     ''Create a traveler advisory for this flight context. Output plain text.\<newline>\<newline>JSON Context:\<newline>'' @
     JSON_stringify2 rt c"
  by (simp add: local_prompt_def)

lemma nonempty_suffix: "x \<noteq> [] \<Longrightarrow> x @ a \<noteq> [] \<and> suffix a (x @ a)"
  by (simp add: suffix_append2)

lemma route_prompt_translate:
  "\<exists>q. build_prompt rt (JStr ''translate'') (JStr l) (JStr a) c = Inr q \<and> q \<noteq> [] \<and> suffix a q"
proof -
  have "''Translate the following advisory to '' @ l @
      '' using clear, friendly travel English localized to the target language.\<newline>\<newline>'' @ a \<noteq> []"
    by simp
  moreover have "suffix a (''Translate the following advisory to '' @ l @
      '' using clear, friendly travel English localized to the target language.\<newline>\<newline>'' @ a)"
    by (rule suffix_append4)
  ultimately show ?thesis unfolding build_prompt_translate by blast
qed

lemma route_prompt_rewrite:
  "\<exists>q. build_prompt rt (JStr ''rewrite'') (JStr l) (JStr a) c = Inr q \<and> q \<noteq> [] \<and> suffix a q"
proof -
  have "''Rewrite the following advisory to be more concise while preserving all key recommendations. Limit to 120 words.\<newline>\<newline>'' @ a \<noteq> []"
    by simp
  moreover have "suffix a (''Rewrite the following advisory to be more concise while preserving all key recommendations. Limit to 120 words.\<newline>\<newline>'' @ a)"
    by (rule suffix_append2)
  ultimately show ?thesis unfolding build_prompt_rewrite by blast
qed

lemma route_prompt_advice:
  "\<exists>q. build_prompt rt (JStr ''advice'') l a c = Inr q \<and> q \<noteq> [] \<and> suffix (JSON_stringify2 rt c) q"
proof -
  let ?x = "''You are a concise travel assistant integrated in a flight delay dashboard. Given the flight context, weather and predicted delays, generate a short actionable advisory for the traveler. Prefer bullet points. Avoid hedging. Never invent data. Keep to ~120-180 words. Include '' @
           ldquo @ ''What to do next'' @ rdquo @ '' with 2-3 steps.\<newline>\<newline>JSON Context:\<newline>''"
  have "?x \<noteq> []" by simp
  then have "?x @ JSON_stringify2 rt c \<noteq> [] \<and> suffix (JSON_stringify2 rt c) (?x @ JSON_stringify2 rt c)"
    by (rule nonempty_suffix)
  then show ?thesis unfolding build_prompt_advice by blast
qed

lemma local_prompts:
  "local_prompt rt ''translate'' l a c \<noteq> []"
  "suffix a (local_prompt rt ''translate'' l a c)"
  "local_prompt rt ''rewrite'' l a c \<noteq> []"
  "suffix a (local_prompt rt ''rewrite'' l a c)"
  "local_prompt rt ''advice'' l a c \<noteq> []"
  "suffix (JSON_stringify2 rt c) (local_prompt rt ''advice'' l a c)"
proof -
  show "local_prompt rt ''translate'' l a c \<noteq> []"
    unfolding local_prompt_translate by simp
  show "suffix a (local_prompt rt ''translate'' l a c)"
    unfolding local_prompt_translate by (rule suffix_append4)
  show "local_prompt rt ''rewrite'' l a c \<noteq> []"
    unfolding local_prompt_rewrite by simp
  show "suffix a (local_prompt rt ''rewrite'' l a c)"
    unfolding local_prompt_rewrite by (rule suffix_append2)
  show "local_prompt rt ''advice'' l a c \<noteq> []"
    unfolding local_prompt_advice by simp
  show "suffix (JSON_stringify2 rt c) (local_prompt rt ''advice'' l a c)"
    unfolding local_prompt_advice by (rule suffix_append2)
qed

text \<open>
  Claim C9. For each of the three modes and for string arguments, the prompt of the route
  and the prompt of the on-device path are non-empty; in mode \<^verbatim>\<open>advice\<close> they end with the
  serialized context, in modes \<^verbatim>\<open>translate\<close> and \<^verbatim>\<open>rewrite\<close> with the prior text. The builders
  are functions of their arguments: equal arguments give the same prompt.
\<close>
theorem prompts_nonempty_and_contain_input:
  assumes "mode = ''advice'' \<or> mode = ''translate'' \<or> mode = ''rewrite''"
  shows "(\<exists>q. build_prompt rt (JStr mode) (JStr lang) (JStr priorText) cx = Inr q \<and> q \<noteq> [] \<and>
            (mode = ''advice'' \<longrightarrow> suffix (JSON_stringify2 rt cx) q) \<and>
            (mode \<noteq> ''advice'' \<longrightarrow> suffix priorText q))
       \<and> local_prompt rt mode lang priorText ctx \<noteq> []
       \<and> (mode = ''advice'' \<longrightarrow> suffix (JSON_stringify2 rt ctx) (local_prompt rt mode lang priorText ctx))
       \<and> (mode \<noteq> ''advice'' \<longrightarrow> suffix priorText (local_prompt rt mode lang priorText ctx))
       \<and> (\<forall>mode' lang' priorText' cx'.
            mode' = JStr mode \<and> lang' = JStr lang \<and> priorText' = JStr priorText \<and> cx' = cx \<longrightarrow>
            build_prompt rt mode' lang' priorText' cx' =
              build_prompt rt (JStr mode) (JStr lang) (JStr priorText) cx)
       \<and> (\<forall>mode' lang' priorText' ctx'.
            mode' = mode \<and> lang' = lang \<and> priorText' = priorText \<and> ctx' = ctx \<longrightarrow>
            local_prompt rt mode' lang' priorText' ctx' = local_prompt rt mode lang priorText ctx)"
proof -
  have main: "(\<exists>q. build_prompt rt (JStr mode) (JStr lang) (JStr priorText) cx = Inr q \<and> q \<noteq> [] \<and>
            (mode = ''advice'' \<longrightarrow> suffix (JSON_stringify2 rt cx) q) \<and>
            (mode \<noteq> ''advice'' \<longrightarrow> suffix priorText q))
       \<and> local_prompt rt mode lang priorText ctx \<noteq> []
       \<and> (mode = ''advice'' \<longrightarrow> suffix (JSON_stringify2 rt ctx) (local_prompt rt mode lang priorText ctx))
       \<and> (mode \<noteq> ''advice'' \<longrightarrow> suffix priorText (local_prompt rt mode lang priorText ctx))"
  proof -
    consider (adv) "mode = ''advice''" | (tr) "mode = ''translate''" | (rw) "mode = ''rewrite''"
      using assms by blast
    then show ?thesis
    proof cases
      case adv
      show ?thesis unfolding adv
        using route_prompt_advice [of rt "JStr lang" "JStr priorText" cx]
        by (simp add: local_prompts)
    next
      case tr
      show ?thesis unfolding tr
        using route_prompt_translate [of rt lang priorText cx]
        by (simp add: local_prompts)
    next
      case rw
      show ?thesis unfolding rw
        using route_prompt_rewrite [of rt lang priorText cx]
        by (simp add: local_prompts)
    qed
  qed
  have det1: "\<forall>mode' lang' priorText' cx'.
            mode' = JStr mode \<and> lang' = JStr lang \<and> priorText' = JStr priorText \<and> cx' = cx \<longrightarrow>
            build_prompt rt mode' lang' priorText' cx' =
              build_prompt rt (JStr mode) (JStr lang) (JStr priorText) cx"
    by simp
  have det2: "\<forall>mode' lang' priorText' ctx'.
            mode' = mode \<and> lang' = lang \<and> priorText' = priorText \<and> ctx' = ctx \<longrightarrow>
            local_prompt rt mode' lang' priorText' ctx' = local_prompt rt mode lang priorText ctx"
    by simp
  from main det1 det2 show ?thesis by (intro conjI) (erule conjE | assumption)+
qed

text \<open>The translate and advice prompts of the sample host.\<close>

theorem prompts_nonempty_and_contain_input_witness:
  "(\<exists>q. build_prompt sample_rt (JStr ''translate'') (JStr ''fr'') (JStr ''Pack an umbrella.'') JNull = Inr q
        \<and> q \<noteq> [] \<and> suffix ''Pack an umbrella.'' q)
   \<and> suffix ''Pack an umbrella.'' (local_prompt sample_rt ''translate'' ''fr'' ''Pack an umbrella.'' JNull)
   \<and> (\<exists>q. build_prompt sample_rt (JStr ''advice'') (JStr ''fr'') (JStr []) JNull = Inr q
        \<and> suffix (JSON_stringify2 sample_rt JNull) q)"
proof -
  have m1: "''translate'' = ''advice'' \<or> ''translate'' = ''translate'' \<or> ''translate'' = ''rewrite''"
    by simp
  have m2: "''advice'' = ''advice'' \<or> ''advice'' = ''translate'' \<or> ''advice'' = ''rewrite''"
    by simp
  have ne: "''translate'' \<noteq> ''advice''"
    by simp
  note a = prompts_nonempty_and_contain_input [where mode = "''translate''" and rt = sample_rt
      and lang = "''fr''" and priorText = "''Pack an umbrella.''" and cx = JNull and ctx = JNull, OF m1]
  note b = prompts_nonempty_and_contain_input [where mode = "''advice''" and rt = sample_rt
      and lang = "''fr''" and priorText = "[]" and cx = JNull and ctx = JNull, OF m2]
  have f1: "\<exists>q. build_prompt sample_rt (JStr ''translate'') (JStr ''fr'') (JStr ''Pack an umbrella.'') JNull = Inr q
        \<and> q \<noteq> [] \<and> suffix ''Pack an umbrella.'' q"
    using a [THEN conjunct1] ne by blast
  note f2 = a [THEN conjunct2, THEN conjunct2, THEN conjunct2, THEN conjunct1, rule_format, OF ne]
  have f3: "\<exists>q. build_prompt sample_rt (JStr ''advice'') (JStr ''fr'') (JStr []) JNull = Inr q
        \<and> suffix (JSON_stringify2 sample_rt JNull) q"
    using b [THEN conjunct1] by blast
  show ?thesis
    by (intro conjI) (rule f1 f2 f3)+
qed

subsection \<open>A rejected prompt\<close>

text \<open>
  For the record: a session whose \<^verbatim>\<open>prompt()\<close> rejects sends the action to the catch block,
  which shows the final fallback text without having called the server route.
\<close>

lemma on_device_rejection_lands_in_catch:
  "advice (ui (generate sample_rt (ready_browser (Inl (Error ''session lost''))) sample_props ''advice''
                 (mount (ready_browser (Inl (Error ''session lost'')))))) = unable_text
   \<and> provider (ui (generate sample_rt (ready_browser (Inl (Error ''session lost''))) sample_props ''advice''
                 (mount (ready_browser (Inl (Error ''session lost'')))))) = JStr ''error''
   \<and> remote_calls (trace (generate sample_rt (ready_browser (Inl (Error ''session lost''))) sample_props ''advice''
                 (mount (ready_browser (Inl (Error ''session lost'')))))) = 0"
proof -
  let ?b = "ready_browser (Inl (Error ''session lost''))"
  let ?w0 = "(mount ?b)\<lparr>ui := (ui (mount ?b))\<lparr>loading := True\<rparr>\<rparr>"
  have e: "enters_on_device ?b ?w0"
    by (simp add: ready_browser_facts)
  have t: "generate_try sample_rt ?b sample_props ''advice'' ?w0 =
      (Inl (Error ''session lost''),
       emit (Prompt (local_prompt sample_rt ''advice'' (language (ui ?w0)) (advice (ui ?w0))
                       (projr (buildContext sample_rt sample_props))))
         (emit (CreateSession (session_opts ''advice'')) (after_query ?b ?w0)))"
    by (simp add: generate_try_on_device [OF e ready_browser_facts(2)]
        on_device_cases [OF ready_browser_facts(4)] sample_context)
  show ?thesis
    by (simp add: generate_result t ready_browser_facts mount_ready)
qed

end
